theory Spec2Isabelle
  imports Complex_Main
begin

section \<open>JavaScript numbers\<close>

text \<open>
  The front end computes with JavaScript numbers. They are modelled as the real numbers
  extended by the three special values of IEEE 754 arithmetic, so that a division by zero
  yields \<open>Infinity\<close> or \<open>NaN\<close> as it does in the browser and every comparison with
  \<open>NaN\<close> is false. Rounding to 53 bits, overflow to infinity and the sign of zero are
  not modelled: a finite result is the exact real one, and a zero denominator is \<open>+0\<close>.
\<close>

datatype jsnum = Num real | PosInfinity | NegInfinity | NaN

fun jneg :: "jsnum \<Rightarrow> jsnum" where
  "jneg (Num a) = Num (- a)"
| "jneg PosInfinity = NegInfinity"
| "jneg NegInfinity = PosInfinity"
| "jneg NaN = NaN"

text \<open>\<open>a + b\<close>\<close>

fun jadd :: "jsnum \<Rightarrow> jsnum \<Rightarrow> jsnum" where
  "jadd NaN _ = NaN"
| "jadd _ NaN = NaN"
| "jadd (Num a) (Num b) = Num (a + b)"
| "jadd PosInfinity NegInfinity = NaN"
| "jadd NegInfinity PosInfinity = NaN"
| "jadd PosInfinity _ = PosInfinity"
| "jadd _ PosInfinity = PosInfinity"
| "jadd NegInfinity _ = NegInfinity"
| "jadd _ NegInfinity = NegInfinity"

text \<open>\<open>a - b\<close>\<close>

definition jsub :: "jsnum \<Rightarrow> jsnum \<Rightarrow> jsnum" where
  "jsub a b = jadd a (jneg b)"

text \<open>\<open>a * b\<close>: infinity times zero is \<open>NaN\<close>, otherwise the signs multiply.\<close>

fun jmul :: "jsnum \<Rightarrow> jsnum \<Rightarrow> jsnum" where
  "jmul NaN _ = NaN"
| "jmul _ NaN = NaN"
| "jmul (Num a) (Num b) = Num (a * b)"
| "jmul PosInfinity (Num b) =
     (if b = 0 then NaN else if 0 < b then PosInfinity else NegInfinity)"
| "jmul NegInfinity (Num b) =
     (if b = 0 then NaN else if 0 < b then NegInfinity else PosInfinity)"
| "jmul (Num a) PosInfinity =
     (if a = 0 then NaN else if 0 < a then PosInfinity else NegInfinity)"
| "jmul (Num a) NegInfinity =
     (if a = 0 then NaN else if 0 < a then NegInfinity else PosInfinity)"
| "jmul PosInfinity PosInfinity = PosInfinity"
| "jmul NegInfinity NegInfinity = PosInfinity"
| "jmul PosInfinity NegInfinity = NegInfinity"
| "jmul NegInfinity PosInfinity = NegInfinity"

text \<open>
  \<open>a / b\<close>: a non-zero number over zero is an infinity of the numerator's sign, zero over
  zero and infinity over infinity are \<open>NaN\<close>, a number over an infinity is zero.
\<close>

fun jdiv :: "jsnum \<Rightarrow> jsnum \<Rightarrow> jsnum" where
  "jdiv NaN _ = NaN"
| "jdiv _ NaN = NaN"
| "jdiv (Num a) (Num b) =
     (if b \<noteq> 0 then Num (a / b)
      else if a = 0 then NaN
      else if 0 < a then PosInfinity else NegInfinity)"
| "jdiv (Num a) PosInfinity = Num 0"
| "jdiv (Num a) NegInfinity = Num 0"
| "jdiv PosInfinity (Num b) = (if 0 \<le> b then PosInfinity else NegInfinity)"
| "jdiv NegInfinity (Num b) = (if 0 \<le> b then NegInfinity else PosInfinity)"
| "jdiv PosInfinity PosInfinity = NaN"
| "jdiv PosInfinity NegInfinity = NaN"
| "jdiv NegInfinity PosInfinity = NaN"
| "jdiv NegInfinity NegInfinity = NaN"

text \<open>\<open>a < b\<close>, and from it \<open>a > b\<close>, \<open>a <= b\<close> and \<open>a >= b\<close>.\<close>

fun jlt :: "jsnum \<Rightarrow> jsnum \<Rightarrow> bool" where
  "jlt NaN _ = False"
| "jlt _ NaN = False"
| "jlt (Num a) (Num b) = (a < b)"
| "jlt _ NegInfinity = False"
| "jlt NegInfinity _ = True"
| "jlt PosInfinity _ = False"
| "jlt _ PosInfinity = True"

definition jgt :: "jsnum \<Rightarrow> jsnum \<Rightarrow> bool" where
  "jgt a b = jlt b a"

definition jle :: "jsnum \<Rightarrow> jsnum \<Rightarrow> bool" where
  "jle a b = (a \<noteq> NaN \<and> b \<noteq> NaN \<and> \<not> jlt b a)"

definition jge :: "jsnum \<Rightarrow> jsnum \<Rightarrow> bool" where
  "jge a b = jle b a"

text \<open>Truthiness of a number, as \<open>||\<close> and \<open>if\<close> test it: zero and \<open>NaN\<close> are falsy.\<close>

definition truthy :: "jsnum \<Rightarrow> bool" where
  "truthy a = (a \<noteq> Num 0 \<and> a \<noteq> NaN)"

text \<open>\<open>Math.pow(x, n)\<close> for a literal exponent \<open>n\<close> that is a natural number.\<close>

definition Math_pow :: "jsnum \<Rightarrow> nat \<Rightarrow> jsnum" where
  "Math_pow x n =
     (if n = 0 then Num 1
      else case x of
        Num a \<Rightarrow> Num (a ^ n)
      | PosInfinity \<Rightarrow> PosInfinity
      | NegInfinity \<Rightarrow> (if odd n then NegInfinity else PosInfinity)
      | NaN \<Rightarrow> NaN)"

fun Math_sqrt :: "jsnum \<Rightarrow> jsnum" where
  "Math_sqrt (Num a) = (if a < 0 then NaN else Num (sqrt a))"
| "Math_sqrt PosInfinity = PosInfinity"
| "Math_sqrt NegInfinity = NaN"
| "Math_sqrt NaN = NaN"

fun Math_abs :: "jsnum \<Rightarrow> jsnum" where
  "Math_abs (Num a) = Num \<bar>a\<bar>"
| "Math_abs PosInfinity = PosInfinity"
| "Math_abs NegInfinity = PosInfinity"
| "Math_abs NaN = NaN"

text \<open>
  \<open>Math.min(...xs)\<close> and \<open>Math.max(...xs)\<close>: the running extremum starts at
  \<open>+Infinity\<close> (\<open>-Infinity\<close> for the maximum), and any \<open>NaN\<close> argument makes the
  result \<open>NaN\<close>.
\<close>

fun Math_min_from :: "jsnum \<Rightarrow> jsnum list \<Rightarrow> jsnum" where
  "Math_min_from lowest [] = lowest"
| "Math_min_from lowest (x # xs) =
     (if x = NaN then NaN else Math_min_from (if jlt x lowest then x else lowest) xs)"

definition Math_min :: "jsnum list \<Rightarrow> jsnum" where
  "Math_min xs = Math_min_from PosInfinity xs"

fun Math_max_from :: "jsnum \<Rightarrow> jsnum list \<Rightarrow> jsnum" where
  "Math_max_from highest [] = highest"
| "Math_max_from highest (x # xs) =
     (if x = NaN then NaN else Math_max_from (if jgt x highest then x else highest) xs)"

definition Math_max :: "jsnum list \<Rightarrow> jsnum" where
  "Math_max xs = Math_max_from NegInfinity xs"

section \<open>Bars and the chart module (charts.js)\<close>

text \<open>
  An OHLCV bar as the back end delivers it and \<open>Charts.currentData\<close> holds it. The field
  \<open>open\<close> of the source is \<open>open_price\<close> here.
\<close>

record bar =
  timestamp :: string
  open_price :: jsnum
  high :: jsnum
  low :: jsnum
  close :: jsnum
  volume :: jsnum

text \<open>
  The \<open>Charts\<close> object. \<open>currentSymbol\<close>, \<open>currentData\<close> and \<open>currentPrice\<close> start
  as \<open>null\<close>, which is \<open>None\<close>.
\<close>

record charts =
  currentSymbol :: "string option"
  currentData :: "bar list option"
  currentPrice :: "jsnum option"
  lastUpdateTime :: int
  updateThrottle :: int

definition Charts_init :: charts where
  "Charts_init =
     \<lparr>currentSymbol = None, currentData = None, currentPrice = None,
      lastUpdateTime = 0, updateThrottle = 100\<rparr>"

section \<open>Live statistics (app.js, \<open>updateLiveStatPrice\<close>)\<close>

text \<open>
  The text of a page element. The source builds it with template literals around
  \<open>x.toFixed(d)\<close>; the pieces are kept apart, so \<open>[Str ''+'', ToFixed x 2, Str ''%'']\<close>
  stands for \<open>'+' + x.toFixed(2) + '%'\<close>. The digits \<open>toFixed\<close> prints are not
  modelled; on a value that is not finite it prints \<open>NaN\<close>, \<open>Infinity\<close> or
  \<open>-Infinity\<close>.
\<close>

datatype piece = Str string | ToFixed jsnum nat

record element =
  textContent :: "piece list"
  color :: string

text \<open>
  The page: \<open>document.getElementById\<close> is the lookup, and an id without an element is
  \<open>None\<close> (\<open>null\<close> in the source, which every write guards against).
\<close>

type_synonym document = "string \<rightharpoonup> element"

definition setTextContent :: "string \<Rightarrow> piece list \<Rightarrow> document \<Rightarrow> document" where
  "setTextContent i t doc =
     (case doc i of None \<Rightarrow> doc | Some el \<Rightarrow> doc(i \<mapsto> el\<lparr>textContent := t\<rparr>))"

definition setTextAndColor :: "string \<Rightarrow> piece list \<Rightarrow> string \<Rightarrow> document \<Rightarrow> document" where
  "setTextAndColor i t c doc =
     (case doc i of None \<Rightarrow> doc | Some el \<Rightarrow> doc(i \<mapsto> el\<lparr>textContent := t, color := c\<rparr>))"

text \<open>
  The values \<open>updateLiveStatPrice\<close> recomputes from the close prices of the chart data
  and the live price (its local constants; \<open>min\<close> and \<open>max\<close> are \<open>min_price\<close> and
  \<open>max_price\<close> here).
\<close>

record live_stats =
  mean :: jsnum
  variance :: jsnum
  std :: jsnum
  min_price :: jsnum
  max_price :: jsnum
  percentChange :: jsnum
  zScore :: jsnum
  distanceMean :: jsnum

definition recalculate :: "jsnum list \<Rightarrow> jsnum \<Rightarrow> live_stats" where
  "recalculate prices price =
     (let n = Num (real (length prices));
          mean = jdiv (foldl (\<lambda>a b. jadd a b) (Num 0) prices) n;
          variance = jdiv (foldl (\<lambda>sum p. jadd sum (Math_pow (jsub p mean) 2)) (Num 0) prices) n;
          std = Math_sqrt variance
      in \<lparr>mean = mean, variance = variance, std = std,
          min_price = Math_min prices, max_price = Math_max prices,
          percentChange = jmul (jdiv (jsub price mean) mean) (Num 100),
          zScore = jdiv (jsub price mean) std,
          distanceMean = jsub price mean\<rparr>)"

definition updateLiveStatPrice :: "charts \<Rightarrow> document \<Rightarrow> string \<Rightarrow> jsnum \<Rightarrow> document" where
  "updateLiveStatPrice ch doc symbol price =
     (let doc1 = setTextContent ''liveStatPrice'' [Str ''$'', ToFixed price 2] doc
      in case currentData ch of
           None \<Rightarrow> doc1
         | Some d \<Rightarrow>
             if length d > 0 then
               (let s = recalculate (map close d) price;
                    doc2 = setTextContent ''liveMeanPrice'' [Str ''$'', ToFixed (mean s) 2] doc1;
                    doc3 = setTextContent ''liveStdDev'' [ToFixed (std s) 2] doc2;
                    doc4 = setTextContent ''liveMinPrice'' [Str ''$'', ToFixed (min_price s) 2] doc3;
                    doc5 = setTextContent ''liveMaxPrice'' [Str ''$'', ToFixed (max_price s) 2] doc4;
                    doc6 = setTextAndColor ''livePercentChange''
                             [Str (if jge (percentChange s) (Num 0) then ''+'' else []),
                              ToFixed (percentChange s) 2, Str ''%'']
                             (if jge (percentChange s) (Num 0) then ''#26a69a'' else ''#ef5350'')
                             doc5;
                    doc7 = setTextAndColor ''liveZScore''
                             [ToFixed (zScore s) 3]
                             (if jgt (Math_abs (zScore s)) (Num 2) then ''#ef5350'' else ''#6b7280'')
                             doc6
                in setTextAndColor ''liveDistanceMean''
                     [Str (if jge (distanceMean s) (Num 0) then ''+'' else []), Str ''$'',
                      ToFixed (distanceMean s) 2]
                     (if jge (distanceMean s) (Num 0) then ''#26a69a'' else ''#ef5350'')
                     doc7)
             else doc1)"

text \<open>
  What the specification asks of the recomputation, on real numbers: the arithmetic mean
  and the population standard deviation (the squared deviations divided by \<open>n\<close>).
\<close>

definition arithmetic_mean :: "real list \<Rightarrow> real" where
  "arithmetic_mean rs = sum_list rs / real (length rs)"

definition population_std :: "real list \<Rightarrow> real" where
  "population_std rs =
     sqrt ((\<Sum>r\<leftarrow>rs. (r - arithmetic_mean rs)\<^sup>2) / real (length rs))"

section \<open>Chart updates (charts.js)\<close>

text \<open>
  The element Plotly draws into, as \<open>document.getElementById(containerId)\<close> finds it:
  \<open>None\<close> when there is no such element, \<open>Some None\<close> for an element without a
  \<open>data\<close> property, \<open>Some (Some n)\<close> for one whose \<open>data\<close> holds \<open>n\<close> traces.
\<close>

type_synonym container = "nat option option"

text \<open>
  The calls into Plotly: \<open>Plotly.update(id, {y: [ys], x: [xs]}, {}, [trace])\<close> and
  \<open>Plotly.restyle(id, {close: [cs], high: [hs], low: [ls]}, [trace])\<close>.
\<close>

datatype plotly_call =
  Plotly_update "jsnum list" "string list" nat
| Plotly_restyle "jsnum list" "jsnum list" "jsnum list" nat

text \<open>
  \<open>Charts.updateLivePrice(containerId, price)\<close>; \<open>now\<close> is the value \<open>Date.now()\<close>
  returns during the call. The result is the \<open>Charts\<close> object afterwards and the Plotly
  calls made.
\<close>

definition updateLivePrice ::
  "charts \<Rightarrow> container \<Rightarrow> int \<Rightarrow> jsnum \<Rightarrow> charts \<times> plotly_call list" where
  "updateLivePrice ch cont now price =
     (case currentData ch of
        None \<Rightarrow> (ch, [])
      | Some d \<Rightarrow>
          if length d = 0 then (ch, [])
          else if now - lastUpdateTime ch < updateThrottle ch then (ch, [])
          else
            (let ch1 = ch\<lparr>lastUpdateTime := now\<rparr>;
                 ch2 = ch1\<lparr>currentPrice := Some price\<rparr>
             in case cont of
                  None \<Rightarrow> (ch2, [])
                | Some None \<Rightarrow> (ch2, [])
                | Some (Some n) \<Rightarrow>
                    if n < 3 then (ch2, [])
                    else
                      (let timestamps = map timestamp d
                       in if length timestamps < 2 then (ch2, [])
                          else (ch2,
                                [Plotly_update [price, price]
                                   [timestamps ! 0, timestamps ! (length timestamps - 1)] 2]))))"

text \<open>
  \<open>Charts.updateLastBar(containerId, price)\<close>. \<open>lastCandle\<close> is the last object of the
  array, changed in place: the array afterwards is the one before with that entry replaced.
\<close>

definition updateLastBar ::
  "charts \<Rightarrow> container \<Rightarrow> jsnum \<Rightarrow> charts \<times> plotly_call list" where
  "updateLastBar ch cont price =
     (case currentData ch of
        None \<Rightarrow> (ch, [])
      | Some d \<Rightarrow>
          if length d = 0 then (ch, [])
          else
            (let lastIndex = length d - 1;
                 lastCandle = d ! lastIndex;
                 c1 = lastCandle\<lparr>close := price\<rparr>;
                 c2 = (if jgt price (high c1) then c1\<lparr>high := price\<rparr> else c1);
                 c3 = (if jlt price (low c2) then c2\<lparr>low := price\<rparr> else c2);
                 d' = d[lastIndex := c3];
                 ch' = ch\<lparr>currentData := Some d'\<rparr>
             in case cont of
                  None \<Rightarrow> (ch', [])
                | Some None \<Rightarrow> (ch', [])
                | Some (Some n) \<Rightarrow>
                    (ch', [Plotly_restyle (map close d') (map high d') (map low d') 0])))"

text \<open>The invariant of a bar: \<open>low \<le> open, close \<le> high\<close> and \<open>volume \<ge> 0\<close>.\<close>

definition bar_ok :: "bar \<Rightarrow> bool" where
  "bar_ok b =
     (jle (low b) (open_price b) \<and> jle (open_price b) (high b) \<and>
      jle (low b) (close b) \<and> jle (close b) (high b) \<and> jge (volume b) (Num 0))"

text \<open>
  A burst of ticks for the charted symbol: each is a clock reading and a live price handed
  to \<open>updateLivePrice\<close>. \<open>update_times\<close> lists the clock readings at which a call to
  \<open>Plotly.update\<close> was issued.
\<close>

fun update_times :: "charts \<Rightarrow> container \<Rightarrow> (int \<times> jsnum) list \<Rightarrow> int list" where
  "update_times ch cont [] = []"
| "update_times ch cont ((now, price) # ticks) =
     (let r = updateLivePrice ch cont now price
      in (if snd r = [] then [] else [now]) @ update_times (fst r) cont ticks)"

text \<open>Any two entries of a list of times are at least \<open>gap\<close> apart, the later one being later.\<close>

fun spaced :: "int \<Rightarrow> int list \<Rightarrow> bool" where
  "spaced gap [] = True"
| "spaced gap (t # ts) = (list_all (\<lambda>u. gap \<le> u - t) ts \<and> spaced gap ts)"

section \<open>Price changes (app.js, \<open>getPriceChange\<close>)\<close>

text \<open>
  \<open>this.lastPrices\<close> is \<open>undefined\<close> (\<open>None\<close>) until the first call creates the object;
  afterwards it maps a symbol to the price last recorded for it. The result is the change
  returned and \<open>this.lastPrices\<close> afterwards; \<open>price\<close> is the parameter
  \<open>currentPrice\<close> of the source.
\<close>

definition getPriceChange ::
  "(string \<rightharpoonup> jsnum) option \<Rightarrow> string \<Rightarrow> jsnum \<Rightarrow> jsnum \<times> (string \<rightharpoonup> jsnum) option" where
  "getPriceChange lastPrices symbol price =
     (let lastPrices1 = (case lastPrices of None \<Rightarrow> Map.empty | Some m \<Rightarrow> m);
          lastPrice = (case lastPrices1 symbol of
                         None \<Rightarrow> price
                       | Some v \<Rightarrow> if truthy v then v else price);
          lastPrices2 = lastPrices1(symbol \<mapsto> price)
      in (jsub price lastPrice, Some lastPrices2))"

section \<open>Tracked symbols (app.js, \<open>addSymbol\<close> and \<open>removeSymbol\<close>)\<close>

text \<open>
  Strings are lists of 8-bit characters. \<open>trim\<close> removes the white space among them from
  both ends; \<open>toLowerCase\<close> maps the letters \<open>A\<close> to \<open>Z\<close> and leaves every other
  character as it is.
\<close>

definition isWhiteSpace :: "char \<Rightarrow> bool" where
  "isWhiteSpace c = ((of_char c :: nat) \<in> {9, 10, 11, 12, 13, 32, 160})"

definition trim :: "string \<Rightarrow> string" where
  "trim s = rev (dropWhile isWhiteSpace (rev (dropWhile isWhiteSpace s)))"

definition toLowerCase :: "string \<Rightarrow> string" where
  "toLowerCase s =
     map (\<lambda>c. case map_of (zip ''ABCDEFGHIJKLMNOPQRSTUVWXYZ'' ''abcdefghijklmnopqrstuvwxyz'') c of
                 None \<Rightarrow> c | Some l \<Rightarrow> l) s"

definition endsWith :: "string \<Rightarrow> string \<Rightarrow> bool" where
  "endsWith s suffix =
     (length suffix \<le> length s \<and> drop (length s - length suffix) s = suffix)"

text \<open>
  The answer of \<open>GET /stream/status\<close>, as far as the two functions read it, and what the
  three requests of one run answer: \<open>Inl message\<close> is a rejected request (\<open>request\<close>
  throws an \<open>Error\<close> with that message), \<open>Inr\<close> a successful one.
\<close>

record stream_status =
  running :: bool
  symbols :: "string list"

record api_responses =
  getStreamStatus_response :: "string + stream_status"
  stopStream_response :: "string + unit"
  startStream_response :: "string + unit"

text \<open>
  What a run does, in order: the requests of the API client (the API client module has no request that
  adds or removes one symbol), the half-second pause, the toasts and the clearing of the
  input field. A toast is named by its message (shown after a pictograph):
  \<open>Please enter a symbol\<close>, \<open>Symbol should end with "usdt" (e.g., solusdt)\<close>,
  \<open>Symbol already being tracked\<close>, \<open>Cannot remove the last symbol\<close>, \<open>Added\<close> and
  \<open>Removed\<close> followed by the symbol in upper case, and the message of a caught error.
\<close>

datatype toast_type = Info | Success | Warning | Failure

datatype toast =
  Please_enter_a_symbol
| Symbol_should_end_with_usdt
| Symbol_already_being_tracked
| Cannot_remove_the_last_symbol
| Added string
| Removed string
| Error_message string

datatype effect =
  Api_getStreamStatus
| Api_stopStream
| Api_startStream "string list"
| Wait nat
| ShowToast toast toast_type
| ClearInput

text \<open>
  The tail both functions share: stop the stream if it runs, wait, start it with
  \<open>allSymbols\<close>, report. A rejected request skips the rest and the \<open>catch\<close> block shows
  its message.
\<close>

definition restartStream :: "api_responses \<Rightarrow> stream_status \<Rightarrow> string list \<Rightarrow> effect list \<Rightarrow> effect list" where
  "restartStream r status allSymbols done_effects =
     (let start = (case startStream_response r of
                     Inl msg \<Rightarrow> [Api_startStream allSymbols, ShowToast (Error_message msg) Failure]
                   | Inr _ \<Rightarrow> Api_startStream allSymbols # done_effects)
      in if running status then
           (case stopStream_response r of
              Inl msg \<Rightarrow> [Api_stopStream, ShowToast (Error_message msg) Failure]
            | Inr _ \<Rightarrow> [Api_stopStream, Wait 500] @ start)
         else start)"

text \<open>\<open>addSymbol()\<close>; \<open>input_value\<close> is the text of the input field \<open>newSymbolInput\<close>.\<close>

definition addSymbol :: "api_responses \<Rightarrow> string \<Rightarrow> effect list" where
  "addSymbol r input_value =
     (let symbol = toLowerCase (trim input_value)
      in if symbol = [] then [ShowToast Please_enter_a_symbol Warning]
         else if \<not> endsWith symbol ''usdt'' then [ShowToast Symbol_should_end_with_usdt Warning]
         else
           (case getStreamStatus_response r of
              Inl msg \<Rightarrow> [Api_getStreamStatus, ShowToast (Error_message msg) Failure]
            | Inr status \<Rightarrow>
                if symbol \<in> set (symbols status)
                then [Api_getStreamStatus, ShowToast Symbol_already_being_tracked Warning]
                else
                  (let allSymbols = symbols status @ [symbol]
                   in Api_getStreamStatus #
                      restartStream r status allSymbols
                        [ShowToast (Added symbol) Success, ClearInput])))"

text \<open>\<open>removeSymbol(symbol)\<close>\<close>

definition removeSymbol :: "api_responses \<Rightarrow> string \<Rightarrow> effect list" where
  "removeSymbol r symbol =
     (case getStreamStatus_response r of
        Inl msg \<Rightarrow> [Api_getStreamStatus, ShowToast (Error_message msg) Failure]
      | Inr status \<Rightarrow>
          if length (symbols status) \<le> 1
          then [Api_getStreamStatus, ShowToast Cannot_remove_the_last_symbol Warning]
          else
            (let allSymbols = filter (\<lambda>s. s \<noteq> symbol) (symbols status)
             in Api_getStreamStatus #
                restartStream r status allSymbols [ShowToast (Removed symbol) Success]))"

text \<open>The requests among the effects that change what the back end streams.\<close>

fun changes_stream :: "effect \<Rightarrow> bool" where
  "changes_stream Api_stopStream = True"
| "changes_stream (Api_startStream _) = True"
| "changes_stream _ = False"

section \<open>Reconnecting the WebSocket (the WebSocket client module)\<close>

text \<open>
  The fields of \<open>WebSocketClient\<close> that \<open>reconnect\<close> reads and writes, as the constructor
  sets them.
\<close>

record ws_client =
  reconnectDelay :: int
  maxReconnectDelay :: int
  reconnectAttempts :: int

definition WebSocketClient_new :: ws_client where
  "WebSocketClient_new =
     \<lparr>reconnectDelay = 1000, maxReconnectDelay = 30000, reconnectAttempts = 0\<rparr>"

text \<open>The \<open>onopen\<close> handler, as far as it touches these fields.\<close>

definition onopen :: "ws_client \<Rightarrow> ws_client" where
  "onopen s = s\<lparr>reconnectAttempts := 0, reconnectDelay := 1000\<rparr>"

text \<open>
  \<open>reconnect()\<close> sets a timer or does nothing: the result is the delay of the timer, if
  one is set. \<open>reconnect_timer\<close> is what the timer's callback does to the fields before it
  calls \<open>connect()\<close>.
\<close>

definition reconnect :: "ws_client \<Rightarrow> int option" where
  "reconnect s = (if reconnectAttempts s < 10 then Some (reconnectDelay s) else None)"

definition reconnect_timer :: "ws_client \<Rightarrow> ws_client" where
  "reconnect_timer s =
     s\<lparr>reconnectAttempts := reconnectAttempts s + 1,
       reconnectDelay := min (reconnectDelay s * 2) (maxReconnectDelay s)\<rparr>"

text \<open>
  The retry loop while no connection succeeds: \<open>reconnect()\<close> sets the timer, the timer
  calls \<open>connect()\<close>, the socket closes without opening and \<open>onclose\<close> (or the \<open>catch\<close>
  block of \<open>connect\<close>) calls \<open>reconnect()\<close> again. The result lists the delays of the
  timers set, one for each attempt.
\<close>

function reconnect_loop :: "ws_client \<Rightarrow> int list" where
  "reconnect_loop s =
     (case reconnect s of
        None \<Rightarrow> []
      | Some delay \<Rightarrow> delay # reconnect_loop (reconnect_timer s))"
  by pat_completeness auto
termination
  by (relation "measure (\<lambda>s. nat (10 - reconnectAttempts s))")
     (auto simp: reconnect_def reconnect_timer_def split: if_splits)

text \<open>The state the loop ends in.\<close>

function reconnect_final :: "ws_client \<Rightarrow> ws_client" where
  "reconnect_final s =
     (case reconnect s of
        None \<Rightarrow> s
      | Some delay \<Rightarrow> reconnect_final (reconnect_timer s))"
  by pat_completeness auto
termination
  by (relation "measure (\<lambda>s. nat (10 - reconnectAttempts s))")
     (auto simp: reconnect_def reconnect_timer_def split: if_splits)

section \<open>Properties of the live statistics\<close>

subsection \<open>The recomputation on finite prices\<close>

lemma foldl_jadd_Num: "foldl (\<lambda>a b. jadd a b) (Num a) (map Num rs) = Num (a + sum_list rs)"
  by (induction rs arbitrary: a) (simp_all add: add.assoc)

lemma foldl_sq_Num:
  "foldl (\<lambda>sum p. jadd sum (Math_pow (jsub p (Num m)) 2)) (Num a) (map Num rs) =
     Num (a + (\<Sum>r\<leftarrow>rs. (r - m)\<^sup>2))"
  by (induction rs arbitrary: a) (simp_all add: add.assoc Math_pow_def jsub_def)

lemma Math_min_from_Num: "Math_min_from (Num a) (map Num rs) = Num (fold min rs a)"
  by (induction rs arbitrary: a) (simp_all add: min_def)

lemma Math_max_from_Num: "Math_max_from (Num a) (map Num rs) = Num (fold max rs a)"
  by (induction rs arbitrary: a) (simp_all add: max_def jgt_def)

lemma Math_min_Num: "rs \<noteq> [] \<Longrightarrow> Math_min (map Num rs) = Num (Min (set rs))"
  by (cases rs) (simp_all add: Math_min_def Math_min_from_Num Min.set_eq_fold del: set_simps)

lemma Math_max_Num: "rs \<noteq> [] \<Longrightarrow> Math_max (map Num rs) = Num (Max (set rs))"
  by (cases rs) (simp_all add: Math_max_def Math_max_from_Num Max.set_eq_fold jgt_def del: set_simps)

lemma sum_sq_nonneg: "0 \<le> (\<Sum>r\<leftarrow>rs. (r - m)\<^sup>2)" for m :: real
  by (induction rs) simp_all

lemma recalculate_mean:
  "rs \<noteq> [] \<Longrightarrow> mean (recalculate (map Num rs) p) = Num (arithmetic_mean rs)"
  by (simp add: recalculate_def Let_def foldl_jadd_Num arithmetic_mean_def)

lemma recalculate_std:
  "rs \<noteq> [] \<Longrightarrow> std (recalculate (map Num rs) p) = Num (population_std rs)"
  using sum_sq_nonneg[where rs = rs and m = "sum_list rs / real (length rs)"]
  by (simp add: recalculate_def Let_def foldl_jadd_Num foldl_sq_Num arithmetic_mean_def
      population_std_def not_less)

lemma recalculate_min_max:
  "rs \<noteq> [] \<Longrightarrow> min_price (recalculate (map Num rs) p) = Num (Min (set rs))"
  "rs \<noteq> [] \<Longrightarrow> max_price (recalculate (map Num rs) p) = Num (Max (set rs))"
  by (simp_all add: recalculate_def Let_def Math_min_Num Math_max_Num)

lemma recalculate_derived:
  "percentChange (recalculate prices p) =
     jmul (jdiv (jsub p (mean (recalculate prices p))) (mean (recalculate prices p))) (Num 100)"
  "zScore (recalculate prices p) =
     jdiv (jsub p (mean (recalculate prices p))) (std (recalculate prices p))"
  "distanceMean (recalculate prices p) = jsub p (mean (recalculate prices p))"
  by (simp_all add: recalculate_def Let_def)

lemma recalculate_mean_indep:
  "mean (recalculate prices p) = mean (recalculate prices q)"
  "std (recalculate prices p) = std (recalculate prices q)"
  by (simp_all add: recalculate_def Let_def)

subsection \<open>What the page shows afterwards\<close>

lemma setTextContent_apply:
  "setTextContent i t doc j =
     (if j = i then map_option (\<lambda>el. el\<lparr>textContent := t\<rparr>) (doc i) else doc j)"
  by (simp add: setTextContent_def split: option.splits)

lemma setTextAndColor_apply:
  "setTextAndColor i t c doc j =
     (if j = i then map_option (\<lambda>el. el\<lparr>textContent := t, color := c\<rparr>) (doc i) else doc j)"
  by (simp add: setTextAndColor_def split: option.splits)

lemma updateLiveStatPrice_fields:
  assumes "currentData ch = Some d" and "d \<noteq> []"
  shows "updateLiveStatPrice ch doc symbol price ''liveMeanPrice'' =
           map_option (\<lambda>el. el\<lparr>textContent :=
               [Str ''$'', ToFixed (mean (recalculate (map close d) price)) 2]\<rparr>)
             (doc ''liveMeanPrice'')"
    and "updateLiveStatPrice ch doc symbol price ''liveStdDev'' =
           map_option (\<lambda>el. el\<lparr>textContent :=
               [ToFixed (std (recalculate (map close d) price)) 2]\<rparr>)
             (doc ''liveStdDev'')"
    and "updateLiveStatPrice ch doc symbol price ''liveMinPrice'' =
           map_option (\<lambda>el. el\<lparr>textContent :=
               [Str ''$'', ToFixed (min_price (recalculate (map close d) price)) 2]\<rparr>)
             (doc ''liveMinPrice'')"
    and "updateLiveStatPrice ch doc symbol price ''liveMaxPrice'' =
           map_option (\<lambda>el. el\<lparr>textContent :=
               [Str ''$'', ToFixed (max_price (recalculate (map close d) price)) 2]\<rparr>)
             (doc ''liveMaxPrice'')"
  using assms
  by (simp_all add: updateLiveStatPrice_def Let_def setTextContent_apply setTextAndColor_apply)

lemma updateLiveStatPrice_liveZScore:
  assumes "currentData ch = Some d" and "d \<noteq> []"
  shows "updateLiveStatPrice ch doc symbol price ''liveZScore'' =
     map_option (\<lambda>el. el\<lparr>textContent := [ToFixed (zScore (recalculate (map close d) price)) 3],
        color := (if jgt (Math_abs (zScore (recalculate (map close d) price))) (Num 2)
                  then ''#ef5350'' else ''#6b7280'')\<rparr>)
       (doc ''liveZScore'')"
  using assms
  by (simp add: updateLiveStatPrice_def Let_def setTextContent_apply setTextAndColor_apply)

lemma updateLiveStatPrice_livePercentChange:
  assumes "currentData ch = Some d" and "d \<noteq> []"
  shows "updateLiveStatPrice ch doc symbol price ''livePercentChange'' =
     map_option (\<lambda>el. el\<lparr>textContent :=
          [Str (if jge (percentChange (recalculate (map close d) price)) (Num 0) then ''+'' else []),
           ToFixed (percentChange (recalculate (map close d) price)) 2, Str ''%''],
        color := (if jge (percentChange (recalculate (map close d) price)) (Num 0)
                  then ''#26a69a'' else ''#ef5350'')\<rparr>)
       (doc ''livePercentChange'')"
  using assms
  by (simp add: updateLiveStatPrice_def Let_def setTextContent_apply setTextAndColor_apply)

lemma updateLiveStatPrice_liveDistanceMean:
  assumes "currentData ch = Some d" and "d \<noteq> []"
  shows "updateLiveStatPrice ch doc symbol price ''liveDistanceMean'' =
     map_option (\<lambda>el. el\<lparr>textContent :=
          [Str (if jge (distanceMean (recalculate (map close d) price)) (Num 0) then ''+'' else []),
           Str ''$'', ToFixed (distanceMean (recalculate (map close d) price)) 2],
        color := (if jge (distanceMean (recalculate (map close d) price)) (Num 0)
                  then ''#26a69a'' else ''#ef5350'')\<rparr>)
       (doc ''liveDistanceMean'')"
  using assms
  by (simp add: updateLiveStatPrice_def Let_def setTextContent_apply setTextAndColor_apply)

subsection \<open>The z-score of a constant window\<close>

text \<open>
  On every window of constant price \<open>c\<close> the standard deviation is 0, and the z-score
  of a live price \<open>p\<close> is \<open>NaN\<close> when \<open>p = c\<close> and an infinity otherwise.
\<close>

lemma recalculate_constant_window:
  assumes "rs = replicate (Suc n) c"
  shows "mean (recalculate (map Num rs) (Num p)) = Num c"
    and "std (recalculate (map Num rs) (Num p)) = Num 0"
    and "zScore (recalculate (map Num rs) (Num p)) =
           (if p = c then NaN else if c < p then PosInfinity else NegInfinity)"
proof -
  have m: "(c + real n * c) / (1 + real n) = c"
  proof -
    have "c + real n * c = c * (1 + real n)" by (simp add: algebra_simps)
    moreover have "1 + real n \<noteq> 0" by (simp add: add_nonneg_eq_0_iff)
    ultimately show ?thesis by simp
  qed
  have z: "(\<Sum>r\<leftarrow>replicate (Suc n) c. (r - c)\<^sup>2) = 0"
    by (simp add: sum_list_replicate)
  show mean: "mean (recalculate (map Num rs) (Num p)) = Num c"
    using m by (simp add: assms recalculate_def Let_def foldl_jadd_Num sum_list_replicate
        add_nonneg_eq_0_iff algebra_simps del: replicate.simps map_replicate)
  show std: "std (recalculate (map Num rs) (Num p)) = Num 0"
    using m z by (simp add: assms recalculate_def Let_def foldl_jadd_Num foldl_sq_Num
        sum_list_replicate add_nonneg_eq_0_iff algebra_simps del: replicate.simps map_replicate)
  have "zScore (recalculate (map Num rs) (Num p)) =
     jdiv (jsub (Num p) (mean (recalculate (map Num rs) (Num p))))
          (std (recalculate (map Num rs) (Num p)))"
    by (simp add: recalculate_def Let_def)
  then show "zScore (recalculate (map Num rs) (Num p)) =
           (if p = c then NaN else if c < p then PosInfinity else NegInfinity)"
    unfolding mean std by (simp add: jsub_def)
qed

text \<open>
  C1 asks that the z-score shown for a window of constant price is 0. The source divides
  by the standard deviation without looking at it. On a chart of one bar that closed at
  100 the standard deviation is 0; with the live price at 100 the quotient is \<open>0 / 0\<close>
  and the page shows \<open>NaN\<close>, with the live price at 101 it is \<open>1 / 0\<close> and the page
  shows \<open>Infinity\<close>, in the colour of an anomaly.
\<close>

theorem zScore_constant_window:
  "updateLiveStatPrice
     (Charts_init\<lparr>currentData := Some
        [\<lparr>timestamp = ''2024-01-01T00:00:00'', open_price = Num 100, high = Num 100,
          low = Num 100, close = Num 100, volume = Num 1\<rparr>]\<rparr>)
     [''liveZScore'' \<mapsto> \<lparr>textContent = [Str ''0.00''], color = []\<rparr>]
     ''btcusdt'' (Num 100) ''liveZScore''
   = Some \<lparr>textContent = [ToFixed NaN 3], color = ''#6b7280''\<rparr>
   \<and>
   updateLiveStatPrice
     (Charts_init\<lparr>currentData := Some
        [\<lparr>timestamp = ''2024-01-01T00:00:00'', open_price = Num 100, high = Num 100,
          low = Num 100, close = Num 100, volume = Num 1\<rparr>]\<rparr>)
     [''liveZScore'' \<mapsto> \<lparr>textContent = [Str ''0.00''], color = []\<rparr>]
     ''btcusdt'' (Num 101) ''liveZScore''
   = Some \<lparr>textContent = [ToFixed PosInfinity 3], color = ''#ef5350''\<rparr>
   \<and>
   std (recalculate [Num 100] (Num 101)) = Num 0"
  by (simp add: updateLiveStatPrice_liveZScore Charts_init_def)
     (simp add: recalculate_def Let_def jsub_def Math_pow_def jgt_def)

subsection \<open>Mean, standard deviation and extrema\<close>

text \<open>
  C2: for every non-empty sequence of close prices the recomputation yields, and writes
  to the page, the arithmetic mean, the population standard deviation (the sum of squared
  deviations divided by \<open>n\<close>) and the least and greatest price of that sequence. The
  prices are finite numbers and the arithmetic is exact.
\<close>

theorem statistics_recomputation:
  assumes "currentData ch = Some d" and "map close d = map Num rs" and "rs \<noteq> []"
  shows "mean (recalculate (map close d) price) = Num (arithmetic_mean rs) \<and>
         std (recalculate (map close d) price) = Num (population_std rs) \<and>
         min_price (recalculate (map close d) price) = Num (Min (set rs)) \<and>
         max_price (recalculate (map close d) price) = Num (Max (set rs)) \<and>
         updateLiveStatPrice ch doc symbol price ''liveMeanPrice'' =
           map_option (\<lambda>el. el\<lparr>textContent := [Str ''$'', ToFixed (Num (arithmetic_mean rs)) 2]\<rparr>)
             (doc ''liveMeanPrice'') \<and>
         updateLiveStatPrice ch doc symbol price ''liveStdDev'' =
           map_option (\<lambda>el. el\<lparr>textContent := [ToFixed (Num (population_std rs)) 2]\<rparr>)
             (doc ''liveStdDev'') \<and>
         updateLiveStatPrice ch doc symbol price ''liveMinPrice'' =
           map_option (\<lambda>el. el\<lparr>textContent := [Str ''$'', ToFixed (Num (Min (set rs))) 2]\<rparr>)
             (doc ''liveMinPrice'') \<and>
         updateLiveStatPrice ch doc symbol price ''liveMaxPrice'' =
           map_option (\<lambda>el. el\<lparr>textContent := [Str ''$'', ToFixed (Num (Max (set rs))) 2]\<rparr>)
             (doc ''liveMaxPrice'')"
proof -
  from assms(2,3) have d: "d \<noteq> []" by auto
  note vals = recalculate_mean[OF assms(3)] recalculate_std[OF assms(3)]
    recalculate_min_max[OF assms(3)]
  show ?thesis
    unfolding updateLiveStatPrice_fields[OF assms(1) d] assms(2) vals by simp
qed

theorem statistics_recomputation_witness:
  "currentData (Charts_init\<lparr>currentData := Some
       [\<lparr>timestamp = ''09:00'', open_price = Num 95, high = Num 96, low = Num 88,
         close = Num 90, volume = Num 3\<rparr>,
        \<lparr>timestamp = ''09:01'', open_price = Num 90, high = Num 112, low = Num 90,
         close = Num 110, volume = Num 2\<rparr>]\<rparr>) =
     Some [\<lparr>timestamp = ''09:00'', open_price = Num 95, high = Num 96, low = Num 88,
         close = Num 90, volume = Num 3\<rparr>,
        \<lparr>timestamp = ''09:01'', open_price = Num 90, high = Num 112, low = Num 90,
         close = Num 110, volume = Num 2\<rparr>] \<and>
   [90, 110] \<noteq> ([] :: real list) \<and>
   mean (recalculate [Num 90, Num 110] (Num 125)) = Num 100 \<and>
   std (recalculate [Num 90, Num 110] (Num 125)) = Num 10 \<and>
   min_price (recalculate [Num 90, Num 110] (Num 125)) = Num 90 \<and>
   max_price (recalculate [Num 90, Num 110] (Num 125)) = Num 110 \<and>
   updateLiveStatPrice (Charts_init\<lparr>currentData := Some
       [\<lparr>timestamp = ''09:00'', open_price = Num 95, high = Num 96, low = Num 88,
         close = Num 90, volume = Num 3\<rparr>,
        \<lparr>timestamp = ''09:01'', open_price = Num 90, high = Num 112, low = Num 90,
         close = Num 110, volume = Num 2\<rparr>]\<rparr>)
     [''liveStdDev'' \<mapsto> \<lparr>textContent = [Str ''0.00''], color = []\<rparr>]
     ''btcusdt'' (Num 125) ''liveStdDev''
   = Some \<lparr>textContent = [ToFixed (Num 10) 2], color = []\<rparr>"
  using statistics_recomputation[of
      "Charts_init\<lparr>currentData := Some
       [\<lparr>timestamp = ''09:00'', open_price = Num 95, high = Num 96, low = Num 88,
         close = Num 90, volume = Num 3\<rparr>,
        \<lparr>timestamp = ''09:01'', open_price = Num 90, high = Num 112, low = Num 90,
         close = Num 110, volume = Num 2\<rparr>]\<rparr>"
      "[\<lparr>timestamp = ''09:00'', open_price = Num 95, high = Num 96, low = Num 88,
         close = Num 90, volume = Num 3\<rparr>,
        \<lparr>timestamp = ''09:01'', open_price = Num 90, high = Num 112, low = Num 90,
         close = Num 110, volume = Num 2\<rparr>]"
      "[90, 110]" "Num 125"
      "[''liveStdDev'' \<mapsto> \<lparr>textContent = [Str ''0.00''], color = []\<rparr>]" "''btcusdt''"]
  by (simp add: arithmetic_mean_def population_std_def)

subsection \<open>The worked example\<close>

text \<open>
  C3: for a window whose mean is 100 and whose population standard deviation is 10, and a
  live price of 125, the z-score is 2.5, the percent change is 25 and is shown as
  \<open>+25.00%\<close>, and the distance from the mean is 25, shown with a plus sign and two
  decimals. The percent change of any live price \<open>p\<close> is \<open>(p - 100) / 100 * 100\<close>: it
  is taken against the mean of the window, and no bar's close enters it otherwise.
\<close>

theorem zScore_example:
  assumes "currentData ch = Some d" and "d \<noteq> []"
    and "mean (recalculate (map close d) (Num 125)) = Num 100"
    and "std (recalculate (map close d) (Num 125)) = Num 10"
  shows "zScore (recalculate (map close d) (Num 125)) = Num (5 / 2) \<and>
         percentChange (recalculate (map close d) (Num 125)) = Num 25 \<and>
         distanceMean (recalculate (map close d) (Num 125)) = Num 25 \<and>
         (\<forall>p. percentChange (recalculate (map close d) (Num p)) = Num ((p - 100) / 100 * 100)) \<and>
         updateLiveStatPrice ch doc symbol (Num 125) ''liveZScore'' =
           map_option (\<lambda>el. el\<lparr>textContent := [ToFixed (Num (5 / 2)) 3], color := ''#ef5350''\<rparr>)
             (doc ''liveZScore'') \<and>
         updateLiveStatPrice ch doc symbol (Num 125) ''livePercentChange'' =
           map_option (\<lambda>el. el\<lparr>textContent := [Str ''+'', ToFixed (Num 25) 2, Str ''%''],
                                 color := ''#26a69a''\<rparr>)
             (doc ''livePercentChange'') \<and>
         updateLiveStatPrice ch doc symbol (Num 125) ''liveDistanceMean'' =
           map_option (\<lambda>el. el\<lparr>textContent := [Str ''+'', Str ''$'', ToFixed (Num 25) 2],
                                 color := ''#26a69a''\<rparr>)
             (doc ''liveDistanceMean'')"
proof -
  let ?s = "recalculate (map close d) (Num 125)"
  have z: "zScore ?s = Num (5 / 2)"
    by (simp add: recalculate_derived(2) assms(3,4) jsub_def)
  have pc: "percentChange ?s = Num 25"
    by (simp add: recalculate_derived(1) assms(3) jsub_def)
  have dm: "distanceMean ?s = Num 25"
    by (simp add: recalculate_derived(3) assms(3) jsub_def)
  have rel: "percentChange (recalculate (map close d) (Num p)) = Num ((p - 100) / 100 * 100)" for p
    using assms(3) recalculate_mean_indep(1)[of "map close d" "Num p" "Num 125"]
    by (simp add: recalculate_derived(1) jsub_def)
  show ?thesis
    unfolding updateLiveStatPrice_liveZScore[OF assms(1,2)]
      updateLiveStatPrice_livePercentChange[OF assms(1,2)]
      updateLiveStatPrice_liveDistanceMean[OF assms(1,2)] z pc dm
    using rel by (simp add: jge_def jle_def jgt_def)
qed

theorem zScore_example_witness:
  "currentData (Charts_init\<lparr>currentData := Some
       [\<lparr>timestamp = ''09:00'', open_price = Num 95, high = Num 96, low = Num 88,
         close = Num 90, volume = Num 3\<rparr>,
        \<lparr>timestamp = ''09:01'', open_price = Num 90, high = Num 112, low = Num 90,
         close = Num 110, volume = Num 2\<rparr>]\<rparr>) =
     Some [\<lparr>timestamp = ''09:00'', open_price = Num 95, high = Num 96, low = Num 88,
         close = Num 90, volume = Num 3\<rparr>,
        \<lparr>timestamp = ''09:01'', open_price = Num 90, high = Num 112, low = Num 90,
         close = Num 110, volume = Num 2\<rparr>] \<and>
   mean (recalculate [Num 90, Num 110] (Num 125)) = Num 100 \<and>
   std (recalculate [Num 90, Num 110] (Num 125)) = Num 10 \<and>
   zScore (recalculate [Num 90, Num 110] (Num 125)) = Num (5 / 2) \<and>
   percentChange (recalculate [Num 90, Num 110] (Num 125)) = Num 25 \<and>
   distanceMean (recalculate [Num 90, Num 110] (Num 125)) = Num 25 \<and>
   updateLiveStatPrice (Charts_init\<lparr>currentData := Some
       [\<lparr>timestamp = ''09:00'', open_price = Num 95, high = Num 96, low = Num 88,
         close = Num 90, volume = Num 3\<rparr>,
        \<lparr>timestamp = ''09:01'', open_price = Num 90, high = Num 112, low = Num 90,
         close = Num 110, volume = Num 2\<rparr>]\<rparr>)
     [''livePercentChange'' \<mapsto> \<lparr>textContent = [Str ''0.00%''], color = []\<rparr>]
     ''btcusdt'' (Num 125) ''livePercentChange''
   = Some \<lparr>textContent = [Str ''+'', ToFixed (Num 25) 2, Str ''%''], color = ''#26a69a''\<rparr>"
proof -
  let ?d = "[\<lparr>timestamp = ''09:00'', open_price = Num 95, high = Num 96, low = Num 88,
         close = Num 90, volume = Num 3\<rparr>,
        \<lparr>timestamp = ''09:01'', open_price = Num 90, high = Num 112, low = Num 90,
         close = Num 110, volume = Num 2\<rparr>]"
  let ?ch = "Charts_init\<lparr>currentData := Some ?d\<rparr>"
  have h1: "currentData ?ch = Some ?d" by simp
  have h2: "?d \<noteq> []" by simp
  have h3: "mean (recalculate (map close ?d) (Num 125)) = Num 100"
    by (simp add: recalculate_def Let_def)
  have h4: "std (recalculate (map close ?d) (Num 125)) = Num 10"
    by (simp add: recalculate_def Let_def jsub_def Math_pow_def)
  show ?thesis
    using zScore_example[OF h1 h2 h3 h4,
        of "[''livePercentChange'' \<mapsto> \<lparr>textContent = [Str ''0.00%''], color = []\<rparr>]"
           "''btcusdt''"] h3 h4
    by simp
qed

section \<open>Properties of the live bar\<close>

subsection \<open>Order on JavaScript numbers\<close>

lemma jlt_irrefl: "\<not> jlt a a"
  by (cases a) simp_all

lemma jlt_jle_trans: "jlt a b \<Longrightarrow> jle b c \<Longrightarrow> jle a c"
  by (cases a; cases b; cases c; simp add: jle_def)

lemma jle_jlt_trans: "jle a b \<Longrightarrow> jlt b c \<Longrightarrow> jle a c"
  by (cases a; cases b; cases c; simp add: jle_def)

lemma jle_not_NaN: "jle a b \<Longrightarrow> a \<noteq> NaN \<and> b \<noteq> NaN"
  by (simp add: jle_def)

subsection \<open>What \<open>updateLastBar\<close> leaves behind\<close>

lemma updateLastBar_fst:
  assumes "currentData ch = Some d" and "d \<noteq> []"
  shows "fst (updateLastBar ch cont price) =
           ch\<lparr>currentData := Some (butlast d @
              [(last d)\<lparr>high := (if jgt price (high (last d)) then price else high (last d)),
                        low := (if jlt price (low (last d)) then price else low (last d)),
                        close := price\<rparr>])\<rparr>"
proof -
  have upd: "d[length d - Suc 0 := x] = butlast d @ [x]" for x
    using assms(2) by (induction d) (auto split: nat.splits)
  from assms(2) have l: "d ! (length d - Suc 0) = last d"
    by (simp add: last_conv_nth)
  show ?thesis
    using assms by (simp add: updateLastBar_def Let_def upd l split: option.splits)
qed

lemma updateLastBar_no_data:
  "currentData ch = None \<or> currentData ch = Some [] \<Longrightarrow> updateLastBar ch cont price = (ch, [])"
  by (auto simp: updateLastBar_def)

lemma live_bar_ok:
  assumes "bar_ok b" and "price \<noteq> NaN"
  shows "bar_ok (b\<lparr>high := (if jgt price (high b) then price else high b),
                   low := (if jlt price (low b) then price else low b),
                   close := price\<rparr>)"
proof -
  from assms(1) have lo: "jle (low b) (open_price b)" and oh: "jle (open_price b) (high b)"
    and vol: "jge (volume b) (Num 0)"
    by (simp_all add: bar_ok_def)
  have nn: "low b \<noteq> NaN" "high b \<noteq> NaN"
    using jle_not_NaN[OF lo] jle_not_NaN[OF oh] by simp_all
  have 1: "jle (if jlt price (low b) then price else low b) (open_price b)"
    using lo jlt_jle_trans by auto
  have 2: "jle (open_price b) (if jgt price (high b) then price else high b)"
    using oh jle_jlt_trans by (auto simp: jgt_def)
  have 3: "jle (if jlt price (low b) then price else low b) price"
    using assms(2) nn by (auto simp: jle_def jlt_irrefl)
  have 4: "jle price (if jgt price (high b) then price else high b)"
    using assms(2) nn by (auto simp: jle_def jgt_def jlt_irrefl)
  show ?thesis
    using 1 2 3 4 vol by (simp add: bar_ok_def)
qed

text \<open>
  C4: when the chart holds a non-empty list of bars that all satisfy
  \<open>low \<le> open, close \<le> high\<close> and \<open>volume \<ge> 0\<close>, then after \<open>updateLastBar\<close> with
  any live price the updated bar, and with it every bar of the list, still does. A live
  price is a number: it may be infinite, but it is not \<open>NaN\<close>.
\<close>

theorem updateLastBar_keeps_invariant:
  assumes "currentData ch = Some d" and "d \<noteq> []" and "\<forall>b \<in> set d. bar_ok b"
    and "price \<noteq> NaN"
  shows "\<exists>d'. currentData (fst (updateLastBar ch cont price)) = Some d' \<and>
              d' \<noteq> [] \<and> bar_ok (last d') \<and> (\<forall>b \<in> set d'. bar_ok b)"
proof -
  from assms(2,3) have "bar_ok (last d)" by simp
  from live_bar_ok[OF this assms(4)] assms(3)
  show ?thesis
    unfolding updateLastBar_fst[OF assms(1,2)]
    by (auto dest: in_set_butlastD)
qed

theorem updateLastBar_keeps_invariant_witness:
  "currentData (Charts_init\<lparr>currentData := Some
       [\<lparr>timestamp = ''09:00'', open_price = Num 95, high = Num 96, low = Num 88,
         close = Num 90, volume = Num 3\<rparr>,
        \<lparr>timestamp = ''09:01'', open_price = Num 90, high = Num 112, low = Num 90,
         close = Num 110, volume = Num 2\<rparr>]\<rparr>) =
     Some [\<lparr>timestamp = ''09:00'', open_price = Num 95, high = Num 96, low = Num 88,
         close = Num 90, volume = Num 3\<rparr>,
        \<lparr>timestamp = ''09:01'', open_price = Num 90, high = Num 112, low = Num 90,
         close = Num 110, volume = Num 2\<rparr>] \<and>
   bar_ok \<lparr>timestamp = ''09:00'', open_price = Num 95, high = Num 96, low = Num 88,
         close = Num 90, volume = Num 3\<rparr> \<and>
   bar_ok \<lparr>timestamp = ''09:01'', open_price = Num 90, high = Num 112, low = Num 90,
         close = Num 110, volume = Num 2\<rparr> \<and>
   Num 115 \<noteq> NaN \<and>
   currentData (fst (updateLastBar (Charts_init\<lparr>currentData := Some
       [\<lparr>timestamp = ''09:00'', open_price = Num 95, high = Num 96, low = Num 88,
         close = Num 90, volume = Num 3\<rparr>,
        \<lparr>timestamp = ''09:01'', open_price = Num 90, high = Num 112, low = Num 90,
         close = Num 110, volume = Num 2\<rparr>]\<rparr>) (Some (Some 3)) (Num 115))) =
     Some [\<lparr>timestamp = ''09:00'', open_price = Num 95, high = Num 96, low = Num 88,
         close = Num 90, volume = Num 3\<rparr>,
        \<lparr>timestamp = ''09:01'', open_price = Num 90, high = Num 115, low = Num 90,
         close = Num 115, volume = Num 2\<rparr>] \<and>
   bar_ok \<lparr>timestamp = ''09:01'', open_price = Num 90, high = Num 115, low = Num 90,
         close = Num 115, volume = Num 2\<rparr>"
proof -
  let ?b1 = "\<lparr>timestamp = ''09:00'', open_price = Num 95, high = Num 96, low = Num 88,
         close = Num 90, volume = Num 3\<rparr>"
  let ?b2 = "\<lparr>timestamp = ''09:01'', open_price = Num 90, high = Num 112, low = Num 90,
         close = Num 110, volume = Num 2\<rparr>"
  let ?ch = "Charts_init\<lparr>currentData := Some [?b1, ?b2]\<rparr>"
  have h1: "currentData ?ch = Some [?b1, ?b2]" by simp
  have h2: "[?b1, ?b2] \<noteq> []" by simp
  have b1: "bar_ok ?b1" and b2: "bar_ok ?b2"
    by (simp_all add: bar_ok_def jle_def jge_def)
  then have h3: "\<forall>b \<in> set [?b1, ?b2]. bar_ok b" by simp
  have h4: "Num 115 \<noteq> NaN" by simp
  have r: "currentData (fst (updateLastBar ?ch (Some (Some 3)) (Num 115))) =
             Some [?b1, ?b2\<lparr>high := Num 115, close := Num 115\<rparr>]"
    by (simp add: updateLastBar_def Let_def jgt_def)
  from updateLastBar_keeps_invariant[OF h1 h2 h3 h4, of "Some (Some 3)"]
  have "bar_ok (?b2\<lparr>high := Num 115, close := Num 115\<rparr>)"
    unfolding r by auto
  with h1 b1 b2 r show ?thesis by simp
qed

text \<open>
  C5: on a non-empty list of bars \<open>updateLastBar\<close> changes the last bar only, and of it
  the fields \<open>close\<close>, \<open>high\<close> and \<open>low\<close> only. The list keeps its length, every
  earlier bar is the bar it was, the last bar keeps its timestamp, open and volume, and
  the other fields of \<open>Charts\<close> are untouched.
\<close>

theorem updateLastBar_frame:
  assumes "currentData ch = Some d" and "d \<noteq> []"
  shows "\<exists>d'. currentData (fst (updateLastBar ch cont price)) = Some d' \<and>
              length d' = length d \<and>
              butlast d' = butlast d \<and>
              (\<forall>i. i < length d - 1 \<longrightarrow> d' ! i = d ! i) \<and>
              timestamp (last d') = timestamp (last d) \<and>
              open_price (last d') = open_price (last d) \<and>
              volume (last d') = volume (last d) \<and>
              close (last d') = price \<and>
              high (last d') = (if jgt price (high (last d)) then price else high (last d)) \<and>
              low (last d') = (if jlt price (low (last d)) then price else low (last d)) \<and>
              currentSymbol (fst (updateLastBar ch cont price)) = currentSymbol ch \<and>
              currentPrice (fst (updateLastBar ch cont price)) = currentPrice ch \<and>
              lastUpdateTime (fst (updateLastBar ch cont price)) = lastUpdateTime ch \<and>
              updateThrottle (fst (updateLastBar ch cont price)) = updateThrottle ch"
  unfolding updateLastBar_fst[OF assms]
  using assms(2) by (simp add: nth_append nth_butlast)

theorem updateLastBar_frame_witness:
  "currentData (Charts_init\<lparr>currentData := Some
       [\<lparr>timestamp = ''09:00'', open_price = Num 95, high = Num 96, low = Num 88,
         close = Num 90, volume = Num 3\<rparr>,
        \<lparr>timestamp = ''09:01'', open_price = Num 90, high = Num 112, low = Num 90,
         close = Num 110, volume = Num 2\<rparr>]\<rparr>) =
     Some [\<lparr>timestamp = ''09:00'', open_price = Num 95, high = Num 96, low = Num 88,
         close = Num 90, volume = Num 3\<rparr>,
        \<lparr>timestamp = ''09:01'', open_price = Num 90, high = Num 112, low = Num 90,
         close = Num 110, volume = Num 2\<rparr>] \<and>
   fst (updateLastBar (Charts_init\<lparr>currentData := Some
       [\<lparr>timestamp = ''09:00'', open_price = Num 95, high = Num 96, low = Num 88,
         close = Num 90, volume = Num 3\<rparr>,
        \<lparr>timestamp = ''09:01'', open_price = Num 90, high = Num 112, low = Num 90,
         close = Num 110, volume = Num 2\<rparr>]\<rparr>) (Some (Some 3)) (Num 85)) =
     Charts_init\<lparr>currentData := Some
       [\<lparr>timestamp = ''09:00'', open_price = Num 95, high = Num 96, low = Num 88,
         close = Num 90, volume = Num 3\<rparr>,
        \<lparr>timestamp = ''09:01'', open_price = Num 90, high = Num 112, low = Num 85,
         close = Num 85, volume = Num 2\<rparr>]\<rparr>"
proof -
  let ?b1 = "\<lparr>timestamp = ''09:00'', open_price = Num 95, high = Num 96, low = Num 88,
         close = Num 90, volume = Num 3\<rparr>"
  let ?b2 = "\<lparr>timestamp = ''09:01'', open_price = Num 90, high = Num 112, low = Num 90,
         close = Num 110, volume = Num 2\<rparr>"
  let ?ch = "Charts_init\<lparr>currentData := Some [?b1, ?b2]\<rparr>"
  let ?ch' = "fst (updateLastBar ?ch (Some (Some 3)) (Num 85))"
  have h1: "currentData ?ch = Some [?b1, ?b2]" by simp
  have h2: "[?b1, ?b2] \<noteq> []" by simp
  from updateLastBar_frame[OF h1 h2, of "Some (Some 3)" "Num 85"]
  obtain d' where d': "currentData ?ch' = Some d'" "length d' = 2" "butlast d' = [?b1]"
      "timestamp (last d') = ''09:01''" "open_price (last d') = Num 90"
      "volume (last d') = Num 2" "close (last d') = Num 85" "high (last d') = Num 112"
      "low (last d') = Num 85"
    and rest: "currentSymbol ?ch' = None" "currentPrice ?ch' = None" "lastUpdateTime ?ch' = 0"
      "updateThrottle ?ch' = 100"
    by (auto simp: jgt_def Charts_init_def)
  from d'(2) obtain x y where xy: "d' = [x, y]"
    by (cases d'; cases "tl d'"; cases "tl (tl d')") auto
  with d' have "x = ?b1" "y = \<lparr>timestamp = ''09:01'', open_price = Num 90, high = Num 112,
      low = Num 85, close = Num 85, volume = Num 2\<rparr>"
    by auto
  with xy d'(1) rest have "?ch' = Charts_init\<lparr>currentData := Some [?b1,
      \<lparr>timestamp = ''09:01'', open_price = Num 90, high = Num 112,
      low = Num 85, close = Num 85, volume = Num 2\<rparr>]\<rparr>"
    by (cases ?ch') (simp add: Charts_init_def)
  with h1 show ?thesis by simp
qed

section \<open>Properties of the update throttle\<close>

lemma updateLivePrice_throttled:
  "now - lastUpdateTime ch < updateThrottle ch \<Longrightarrow> updateLivePrice ch cont now price = (ch, [])"
  by (simp add: updateLivePrice_def split: option.splits)

lemma updateLivePrice_cases:
  "updateLivePrice ch cont now price = (ch, []) \<or>
   (updateThrottle ch \<le> now - lastUpdateTime ch \<and>
    fst (updateLivePrice ch cont now price) =
      ch\<lparr>lastUpdateTime := now, currentPrice := Some price\<rparr>)"
  by (auto simp: updateLivePrice_def Let_def split: option.splits)

lemma updateLivePrice_passes:
  assumes "currentData ch = Some d" and "d \<noteq> []"
    and "updateThrottle ch \<le> now - lastUpdateTime ch"
  shows "fst (updateLivePrice ch cont now price) =
           ch\<lparr>lastUpdateTime := now, currentPrice := Some price\<rparr>"
  using assms by (auto simp: updateLivePrice_def Let_def split: option.splits)

text \<open>Every update of a burst comes at least the throttle after the stored timestamp.\<close>

lemma update_times_ge:
  assumes "0 \<le> updateThrottle ch"
  shows "\<forall>u \<in> set (update_times ch cont ticks). updateThrottle ch \<le> u - lastUpdateTime ch"
  using assms
proof (induction ticks arbitrary: ch)
  case Nil
  show ?case by simp
next
  case (Cons tick ticks)
  obtain now price where tick: "tick = (now, price)" by (cases tick)
  let ?r = "updateLivePrice ch cont now price"
  from updateLivePrice_cases[of ch cont now price]
  show ?case
  proof
    assume "?r = (ch, [])"
    with Cons show ?thesis by (simp add: tick)
  next
    assume pass: "updateThrottle ch \<le> now - lastUpdateTime ch \<and>
      fst ?r = ch\<lparr>lastUpdateTime := now, currentPrice := Some price\<rparr>"
    then have th: "updateThrottle (fst ?r) = updateThrottle ch"
      and l: "lastUpdateTime (fst ?r) = now"
      by simp_all
    from Cons.IH[of "fst ?r"] Cons.prems th l
    have "\<forall>u \<in> set (update_times (fst ?r) cont ticks). updateThrottle ch \<le> u - now"
      by simp
    with pass Cons.prems show ?thesis
      by (auto simp: tick Let_def)
  qed
qed

lemma spaced_update_times:
  assumes "0 \<le> updateThrottle ch"
  shows "spaced (updateThrottle ch) (update_times ch cont ticks)"
  using assms
proof (induction ticks arbitrary: ch)
  case Nil
  show ?case by simp
next
  case (Cons tick ticks)
  obtain now price where tick: "tick = (now, price)" by (cases tick)
  let ?r = "updateLivePrice ch cont now price"
  from updateLivePrice_cases[of ch cont now price]
  show ?case
  proof
    assume "?r = (ch, [])"
    with Cons show ?thesis by (simp add: tick)
  next
    assume pass: "updateThrottle ch \<le> now - lastUpdateTime ch \<and>
      fst ?r = ch\<lparr>lastUpdateTime := now, currentPrice := Some price\<rparr>"
    then have th: "updateThrottle (fst ?r) = updateThrottle ch"
      and l: "lastUpdateTime (fst ?r) = now"
      by simp_all
    from Cons.IH[of "fst ?r"] Cons.prems th
    have sp: "spaced (updateThrottle ch) (update_times (fst ?r) cont ticks)" by simp
    from update_times_ge[of "fst ?r" cont ticks] Cons.prems th l
    have "list_all (\<lambda>u. updateThrottle ch \<le> u - now) (update_times (fst ?r) cont ticks)"
      by (simp add: list_all_iff)
    with sp show ?thesis
      by (simp add: tick Let_def)
  qed
qed

text \<open>
  C7 as stated fails. A first call at clock reading 1000 updates the chart and stores
  1000. A call at 1090 is throttled and changes nothing. The next call, at 1110, comes
  20 ms after that call and still updates the chart and moves the timestamp: the throttle
  measures from the last update made, not from the last call.
\<close>

theorem updateLivePrice_close_calls_counterexample:
  "updateLivePrice
     (Charts_init\<lparr>currentData := Some
        [\<lparr>timestamp = ''09:00'', open_price = Num 95, high = Num 96, low = Num 88,
          close = Num 90, volume = Num 3\<rparr>,
         \<lparr>timestamp = ''09:01'', open_price = Num 90, high = Num 112, low = Num 90,
          close = Num 110, volume = Num 2\<rparr>]\<rparr>)
     (Some (Some 3)) 1000 (Num 110)
   = (Charts_init\<lparr>currentData := Some
        [\<lparr>timestamp = ''09:00'', open_price = Num 95, high = Num 96, low = Num 88,
          close = Num 90, volume = Num 3\<rparr>,
         \<lparr>timestamp = ''09:01'', open_price = Num 90, high = Num 112, low = Num 90,
          close = Num 110, volume = Num 2\<rparr>],
        lastUpdateTime := 1000, currentPrice := Some (Num 110)\<rparr>,
      [Plotly_update [Num 110, Num 110] [''09:00'', ''09:01''] 2])
   \<and> updateLivePrice
     (Charts_init\<lparr>currentData := Some
        [\<lparr>timestamp = ''09:00'', open_price = Num 95, high = Num 96, low = Num 88,
          close = Num 90, volume = Num 3\<rparr>,
         \<lparr>timestamp = ''09:01'', open_price = Num 90, high = Num 112, low = Num 90,
          close = Num 110, volume = Num 2\<rparr>],
        lastUpdateTime := 1000, currentPrice := Some (Num 110)\<rparr>)
     (Some (Some 3)) 1090 (Num 111)
   = (Charts_init\<lparr>currentData := Some
        [\<lparr>timestamp = ''09:00'', open_price = Num 95, high = Num 96, low = Num 88,
          close = Num 90, volume = Num 3\<rparr>,
         \<lparr>timestamp = ''09:01'', open_price = Num 90, high = Num 112, low = Num 90,
          close = Num 110, volume = Num 2\<rparr>],
        lastUpdateTime := 1000, currentPrice := Some (Num 110)\<rparr>, [])
   \<and> (1110 :: int) - 1090 < updateThrottle Charts_init
   \<and> updateLivePrice
     (Charts_init\<lparr>currentData := Some
        [\<lparr>timestamp = ''09:00'', open_price = Num 95, high = Num 96, low = Num 88,
          close = Num 90, volume = Num 3\<rparr>,
         \<lparr>timestamp = ''09:01'', open_price = Num 90, high = Num 112, low = Num 90,
          close = Num 110, volume = Num 2\<rparr>],
        lastUpdateTime := 1000, currentPrice := Some (Num 110)\<rparr>)
     (Some (Some 3)) 1110 (Num 112)
   = (Charts_init\<lparr>currentData := Some
        [\<lparr>timestamp = ''09:00'', open_price = Num 95, high = Num 96, low = Num 88,
          close = Num 90, volume = Num 3\<rparr>,
         \<lparr>timestamp = ''09:01'', open_price = Num 90, high = Num 112, low = Num 90,
          close = Num 110, volume = Num 2\<rparr>],
        lastUpdateTime := 1110, currentPrice := Some (Num 112)\<rparr>,
      [Plotly_update [Num 112, Num 112] [''09:00'', ''09:01''] 2])"
  by (simp add: updateLivePrice_def Charts_init_def Let_def)

text \<open>
  C7 as amended. A call whose clock reading is less than the throttle after the stored
  timestamp does nothing: no Plotly call, the \<open>Charts\<close> object as it was. So the second
  of two calls less than the throttle apart does nothing whenever the first one got past
  the throttle, and in any burst of calls the clock readings at which the chart was updated
  are pairwise at least the throttle (100 ms) apart.
\<close>

theorem updateLivePrice_throttle:
  assumes "0 \<le> updateThrottle ch"
  shows "(now - lastUpdateTime ch < updateThrottle ch \<longrightarrow>
            updateLivePrice ch cont now price = (ch, [])) \<and>
         (\<forall>d t1 t2 p1 p2.
            currentData ch = Some d \<and> d \<noteq> [] \<and>
            updateThrottle ch \<le> t1 - lastUpdateTime ch \<and> t2 - t1 < updateThrottle ch \<longrightarrow>
            lastUpdateTime (fst (updateLivePrice ch cont t1 p1)) = t1 \<and>
            updateLivePrice (fst (updateLivePrice ch cont t1 p1)) cont t2 p2 =
              (fst (updateLivePrice ch cont t1 p1), [])) \<and>
         spaced (updateThrottle ch) (update_times ch cont ticks)"
proof (intro conjI allI impI)
  assume "now - lastUpdateTime ch < updateThrottle ch"
  then show "updateLivePrice ch cont now price = (ch, [])"
    by (rule updateLivePrice_throttled)
next
  fix d t1 t2 p1 p2
  assume a: "currentData ch = Some d \<and> d \<noteq> [] \<and>
            updateThrottle ch \<le> t1 - lastUpdateTime ch \<and> t2 - t1 < updateThrottle ch"
  then have f: "fst (updateLivePrice ch cont t1 p1) =
      ch\<lparr>lastUpdateTime := t1, currentPrice := Some p1\<rparr>"
    using updateLivePrice_passes by blast
  show "lastUpdateTime (fst (updateLivePrice ch cont t1 p1)) = t1"
    by (simp add: f)
  from a show "updateLivePrice (fst (updateLivePrice ch cont t1 p1)) cont t2 p2 =
              (fst (updateLivePrice ch cont t1 p1), [])"
    unfolding f by (intro updateLivePrice_throttled) simp
next
  from assms show "spaced (updateThrottle ch) (update_times ch cont ticks)"
    by (rule spaced_update_times)
qed

theorem updateLivePrice_throttle_witness:
  "0 \<le> updateThrottle Charts_init \<and>
   50 - lastUpdateTime Charts_init < updateThrottle Charts_init \<and>
   updateLivePrice
     (Charts_init\<lparr>currentData := Some
        [\<lparr>timestamp = ''09:00'', open_price = Num 95, high = Num 96, low = Num 88,
          close = Num 90, volume = Num 3\<rparr>,
         \<lparr>timestamp = ''09:01'', open_price = Num 90, high = Num 112, low = Num 90,
          close = Num 110, volume = Num 2\<rparr>]\<rparr>)
     (Some (Some 3)) 50 (Num 111)
   = (Charts_init\<lparr>currentData := Some
        [\<lparr>timestamp = ''09:00'', open_price = Num 95, high = Num 96, low = Num 88,
          close = Num 90, volume = Num 3\<rparr>,
         \<lparr>timestamp = ''09:01'', open_price = Num 90, high = Num 112, low = Num 90,
          close = Num 110, volume = Num 2\<rparr>]\<rparr>, []) \<and>
   updateThrottle Charts_init \<le> 1000 - lastUpdateTime Charts_init \<and>
   (1090 :: int) - 1000 < updateThrottle Charts_init \<and>
   snd (updateLivePrice
     (fst (updateLivePrice
       (Charts_init\<lparr>currentData := Some
        [\<lparr>timestamp = ''09:00'', open_price = Num 95, high = Num 96, low = Num 88,
          close = Num 90, volume = Num 3\<rparr>,
         \<lparr>timestamp = ''09:01'', open_price = Num 90, high = Num 112, low = Num 90,
          close = Num 110, volume = Num 2\<rparr>]\<rparr>)
       (Some (Some 3)) 1000 (Num 110)))
     (Some (Some 3)) 1090 (Num 111)) = [] \<and>
   update_times
     (Charts_init\<lparr>currentData := Some
        [\<lparr>timestamp = ''09:00'', open_price = Num 95, high = Num 96, low = Num 88,
          close = Num 90, volume = Num 3\<rparr>,
         \<lparr>timestamp = ''09:01'', open_price = Num 90, high = Num 112, low = Num 90,
          close = Num 110, volume = Num 2\<rparr>]\<rparr>)
     (Some (Some 3))
     [(1000, Num 110), (1090, Num 111), (1110, Num 112), (1150, Num 111), (1300, Num 109)]
   = [1000, 1110, 1300] \<and>
   spaced 100 [1000, 1110, 1300]"
proof -
  let ?d = "[\<lparr>timestamp = ''09:00'', open_price = Num 95, high = Num 96, low = Num 88,
          close = Num 90, volume = Num 3\<rparr>,
         \<lparr>timestamp = ''09:01'', open_price = Num 90, high = Num 112, low = Num 90,
          close = Num 110, volume = Num 2\<rparr>]"
  let ?ch = "Charts_init\<lparr>currentData := Some ?d\<rparr>"
  let ?c = "Some (Some (3 :: nat))"
  let ?ticks = "[(1000, Num 110), (1090, Num 111), (1110, Num 112), (1150, Num 111),
                 (1300, Num 109)]"
  have h: "0 \<le> updateThrottle ?ch" by (simp add: Charts_init_def)
  have h1: "50 - lastUpdateTime ?ch < updateThrottle ?ch" by (simp add: Charts_init_def)
  have h2: "currentData ?ch = Some ?d \<and> ?d \<noteq> [] \<and>
            updateThrottle ?ch \<le> 1000 - lastUpdateTime ?ch \<and> 1090 - 1000 < updateThrottle ?ch"
    by (simp add: Charts_init_def)
  have t: "update_times ?ch ?c ?ticks = [1000, 1110, 1300]"
    by (simp add: updateLivePrice_def Charts_init_def Let_def)
  note inst = updateLivePrice_throttle[OF h, of 50 ?c "Num 111" ?ticks]
  from inst h1 have a: "updateLivePrice ?ch ?c 50 (Num 111) = (?ch, [])"
    by blast
  from inst h2
  have b: "snd (updateLivePrice (fst (updateLivePrice ?ch ?c 1000 (Num 110))) ?c 1090 (Num 111)) = []"
    by (metis snd_conv)
  from inst have "spaced (updateThrottle ?ch) (update_times ?ch ?c ?ticks)"
    by blast
  then have c: "spaced 100 [1000, 1110, 1300]"
    unfolding t by (simp add: Charts_init_def)
  from a b c t show ?thesis by (simp add: Charts_init_def)
qed

section \<open>Properties of the price change\<close>

lemma getPriceChange_first:
  assumes "lastPrices = None \<or> (\<exists>m. lastPrices = Some m \<and> m symbol = None)"
  shows "getPriceChange lastPrices symbol (Num p) =
           (Num 0,
            Some ((case lastPrices of None \<Rightarrow> Map.empty | Some m \<Rightarrow> m)(symbol \<mapsto> Num p)))"
  using assms by (auto simp: getPriceChange_def jsub_def)

lemma getPriceChange_next:
  assumes "lastPrices = Some m" and "m symbol = Some (Num q)" and "q \<noteq> 0"
  shows "getPriceChange lastPrices symbol (Num p) = (Num (p - q), Some (m(symbol \<mapsto> Num p)))"
  using assms by (simp add: getPriceChange_def jsub_def truthy_def)

text \<open>
  C9 asks that for a symbol seen before the change returned is the current price minus the
  price recorded last. The source reads the recorded price with \<open>||\<close>, which takes a
  recorded 0 for no record. After a first tick at price 0 the record holds 0; for the next
  tick, at price 5, the change returned is 0 and not \<open>5 - 0 = 5\<close>.
\<close>

theorem getPriceChange_after_zero:
  "getPriceChange None ''btcusdt'' (Num 0) = (Num 0, Some [''btcusdt'' \<mapsto> Num 0]) \<and>
   getPriceChange (Some [''btcusdt'' \<mapsto> Num 0]) ''btcusdt'' (Num 5) =
     (Num 0, Some [''btcusdt'' \<mapsto> Num 5]) \<and>
   jsub (Num 5) (Num 0) = Num 5"
  by (simp add: getPriceChange_def jsub_def truthy_def)

section \<open>Properties of adding and removing symbols\<close>

lemma restartStream_changes:
  assumes "running status \<longrightarrow> stopStream_response r = Inr ()"
    and "\<forall>e \<in> set done_effects. \<not> changes_stream e"
  shows "filter changes_stream (restartStream r status allSymbols done_effects) =
           (if running status then [Api_stopStream] else []) @ [Api_startStream allSymbols]"
  using assms by (auto simp: restartStream_def Let_def split: sum.splits)

lemma fold_unchanged:
  assumes "\<forall>e \<in> set es. \<not> changes_stream e"
    and "\<forall>e st. \<not> changes_stream e \<longrightarrow> serve e st = st"
  shows "fold serve es st = st"
  using assms by (induction es arbitrary: st) simp_all

lemma addSymbol_rejected:
  assumes "symbol = toLowerCase (trim input_value)"
    and "symbol = [] \<or> \<not> endsWith symbol ''usdt'' \<or>
         (\<exists>status. getStreamStatus_response r = Inr status \<and> symbol \<in> set (symbols status))"
  shows "addSymbol r input_value = [ShowToast Please_enter_a_symbol Warning] \<or>
         addSymbol r input_value = [ShowToast Symbol_should_end_with_usdt Warning] \<or>
         addSymbol r input_value =
           [Api_getStreamStatus, ShowToast Symbol_already_being_tracked Warning]"
  using assms by (auto simp: addSymbol_def Let_def)

lemma toLowerCase_trim_examples:
  "toLowerCase (trim ''  SOLusdt '') = ''solusdt''"
  "toLowerCase (trim ''BTCusdt '') = ''btcusdt''"
  "toLowerCase (trim ''   '') = []"
  "toLowerCase (trim ''btc'') = ''btc''"
  by (simp_all add: toLowerCase_def trim_def isWhiteSpace_def)

lemma endsWith_examples:
  "endsWith ''solusdt'' ''usdt''" "endsWith ''btcusdt'' ''usdt''" "\<not> endsWith ''btc'' ''usdt''"
  by (simp_all add: endsWith_def)

text \<open>
  C6 as stated fails for the removal of the only tracked symbol: \<open>removeSymbol\<close> asks for
  the status, refuses with a warning, and neither stops the stream nor starts it with the
  remaining (empty) list.
\<close>

theorem remove_last_symbol_counterexample:
  "removeSymbol
     \<lparr>getStreamStatus_response = Inr \<lparr>running = True, symbols = [''btcusdt'']\<rparr>,
      stopStream_response = Inr (), startStream_response = Inr ()\<rparr>
     ''btcusdt'' =
   [Api_getStreamStatus, ShowToast Cannot_remove_the_last_symbol Warning] \<and>
   ''btcusdt'' \<in> set [''btcusdt''] \<and>
   filter (\<lambda>s. s \<noteq> ''btcusdt'') [''btcusdt''] = []"
  by (simp add: removeSymbol_def)

text \<open>
  C6 as amended, for a run in which the status request succeeds and the stop request, if
  made, succeeds. Adding a symbol that passes the input checks (not empty after trimming
  and lower-casing, ending in \<open>usdt\<close>, not tracked yet) stops the stream if it runs and
  then starts it with the whole list: the tracked symbols followed by the new one.
  Removing a symbol while more than one is tracked stops the stream if it runs and then
  starts it with the whole list without that symbol. These are the only requests that
  change the stream, so no request carries a single symbol as a delta. While at most one
  symbol is tracked a removal is refused: a warning, and no stop or start.
\<close>

theorem symbol_set_resubmitted:
  assumes "getStreamStatus_response r = Inr status"
    and "running status \<longrightarrow> stopStream_response r = Inr ()"
  shows "(symbol = toLowerCase (trim input_value) \<and> symbol \<noteq> [] \<and> endsWith symbol ''usdt'' \<and>
          symbol \<notin> set (symbols status) \<longrightarrow>
            filter changes_stream (addSymbol r input_value) =
              (if running status then [Api_stopStream] else []) @
              [Api_startStream (symbols status @ [symbol])] \<and>
            set (symbols status @ [symbol]) = set (symbols status) \<union> {symbol}) \<and>
         (1 < length (symbols status) \<longrightarrow>
            filter changes_stream (removeSymbol r removed) =
              (if running status then [Api_stopStream] else []) @
              [Api_startStream (filter (\<lambda>s. s \<noteq> removed) (symbols status))] \<and>
            set (filter (\<lambda>s. s \<noteq> removed) (symbols status)) = set (symbols status) - {removed}) \<and>
         (length (symbols status) \<le> 1 \<longrightarrow>
            removeSymbol r removed =
              [Api_getStreamStatus, ShowToast Cannot_remove_the_last_symbol Warning])"
proof (intro conjI impI)
  assume a: "symbol = toLowerCase (trim input_value) \<and> symbol \<noteq> [] \<and>
          endsWith symbol ''usdt'' \<and> symbol \<notin> set (symbols status)"
  then have s: "toLowerCase (trim input_value) = symbol" and ne: "symbol \<noteq> []"
    and us: "endsWith symbol ''usdt''" and new: "symbol \<notin> set (symbols status)"
    by blast+
  show "filter changes_stream (addSymbol r input_value) =
              (if running status then [Api_stopStream] else []) @
              [Api_startStream (symbols status @ [symbol])]"
    using restartStream_changes[OF assms(2),
        of "[ShowToast (Added symbol) Success, ClearInput]" "symbols status @ [symbol]"]
    by (simp add: addSymbol_def Let_def s ne us new assms(1))
  show "set (symbols status @ [symbol]) = set (symbols status) \<union> {symbol}" by simp
next
  assume "1 < length (symbols status)"
  then show "filter changes_stream (removeSymbol r removed) =
              (if running status then [Api_stopStream] else []) @
              [Api_startStream (filter (\<lambda>s. s \<noteq> removed) (symbols status))]"
    using assms restartStream_changes[OF assms(2),
        of "[ShowToast (Removed removed) Success]"
           "filter (\<lambda>s. s \<noteq> removed) (symbols status)"]
    by (simp add: removeSymbol_def Let_def)
  show "set (filter (\<lambda>s. s \<noteq> removed) (symbols status)) = set (symbols status) - {removed}"
    by auto
next
  assume "length (symbols status) \<le> 1"
  then show "removeSymbol r removed =
              [Api_getStreamStatus, ShowToast Cannot_remove_the_last_symbol Warning]"
    using assms by (simp add: removeSymbol_def)
qed

theorem symbol_set_resubmitted_witness:
  "addSymbol
     \<lparr>getStreamStatus_response = Inr \<lparr>running = True, symbols = [''btcusdt'', ''ethusdt'']\<rparr>,
      stopStream_response = Inr (), startStream_response = Inr ()\<rparr>
     ''  SOLusdt '' =
   [Api_getStreamStatus, Api_stopStream, Wait 500,
    Api_startStream [''btcusdt'', ''ethusdt'', ''solusdt''],
    ShowToast (Added ''solusdt'') Success, ClearInput] \<and>
   filter changes_stream (addSymbol
     \<lparr>getStreamStatus_response = Inr \<lparr>running = True, symbols = [''btcusdt'', ''ethusdt'']\<rparr>,
      stopStream_response = Inr (), startStream_response = Inr ()\<rparr>
     ''  SOLusdt '') =
   [Api_stopStream, Api_startStream [''btcusdt'', ''ethusdt'', ''solusdt'']] \<and>
   filter changes_stream (removeSymbol
     \<lparr>getStreamStatus_response = Inr \<lparr>running = True, symbols = [''btcusdt'', ''ethusdt'']\<rparr>,
      stopStream_response = Inr (), startStream_response = Inr ()\<rparr>
     ''btcusdt'') =
   [Api_stopStream, Api_startStream [''ethusdt'']] \<and>
   removeSymbol
     \<lparr>getStreamStatus_response = Inr \<lparr>running = False, symbols = [''ethusdt'']\<rparr>,
      stopStream_response = Inr (), startStream_response = Inr ()\<rparr>
     ''ethusdt'' =
   [Api_getStreamStatus, ShowToast Cannot_remove_the_last_symbol Warning]"
proof -
  let ?st = "\<lparr>running = True, symbols = [''btcusdt'', ''ethusdt'']\<rparr>"
  let ?r = "\<lparr>getStreamStatus_response = Inr ?st,
      stopStream_response = Inr (), startStream_response = Inr ()\<rparr>"
  let ?st1 = "\<lparr>running = False, symbols = [''ethusdt'']\<rparr>"
  let ?r1 = "\<lparr>getStreamStatus_response = Inr ?st1,
      stopStream_response = Inr (), startStream_response = Inr ()\<rparr>"
  have h1: "getStreamStatus_response ?r = Inr ?st" by simp
  have h2: "running ?st \<longrightarrow> stopStream_response ?r = Inr ()" by simp
  have h3: "''solusdt'' = toLowerCase (trim ''  SOLusdt '') \<and> ''solusdt'' \<noteq> [] \<and>
      endsWith ''solusdt'' ''usdt'' \<and> ''solusdt'' \<notin> set (symbols ?st)"
    by (simp add: toLowerCase_trim_examples endsWith_examples)
  have h4: "1 < length (symbols ?st)" by simp
  have g1: "getStreamStatus_response ?r1 = Inr ?st1" by simp
  have g2: "running ?st1 \<longrightarrow> stopStream_response ?r1 = Inr ()" by simp
  have g3: "length (symbols ?st1) \<le> 1" by simp
  note i = symbol_set_resubmitted[OF h1 h2, of "''solusdt''" "''  SOLusdt ''" "''btcusdt''"]
  note j = symbol_set_resubmitted[OF g1 g2, of "''solusdt''" "''  SOLusdt ''" "''ethusdt''"]
  from i[THEN conjunct1, THEN mp, OF h3, THEN conjunct1]
  have a: "filter changes_stream (addSymbol ?r ''  SOLusdt '') =
      [Api_stopStream, Api_startStream [''btcusdt'', ''ethusdt'', ''solusdt'']]"
    by simp
  from i[THEN conjunct2, THEN conjunct1, THEN mp, OF h4, THEN conjunct1]
  have b: "filter changes_stream (removeSymbol ?r ''btcusdt'') =
      [Api_stopStream, Api_startStream [''ethusdt'']]"
    by simp
  from j[THEN conjunct2, THEN conjunct2, THEN mp, OF g3]
  have c: "removeSymbol ?r1 ''ethusdt'' =
      [Api_getStreamStatus, ShowToast Cannot_remove_the_last_symbol Warning]"
    by simp
  have d: "addSymbol ?r ''  SOLusdt '' =
      [Api_getStreamStatus, Api_stopStream, Wait 500,
       Api_startStream [''btcusdt'', ''ethusdt'', ''solusdt''],
       ShowToast (Added ''solusdt'') Success, ClearInput]"
    by (simp add: addSymbol_def Let_def toLowerCase_trim_examples endsWith_examples
        restartStream_def)
  from a b c d show ?thesis by simp
qed

text \<open>
  C10: when the entered symbol, trimmed and lower-cased, is empty, or does not end in
  \<open>usdt\<close>, or is reported as tracked by the status request, \<open>addSymbol\<close> makes no stop
  and no start request and does not clear the input field. Whatever the back end does on
  a request, if only stop and start requests change its state then its state after the
  run is its state before.
\<close>

theorem addSymbol_input_checks:
  assumes "symbol = toLowerCase (trim input_value)"
    and "symbol = [] \<or> \<not> endsWith symbol ''usdt'' \<or>
         (\<exists>status. getStreamStatus_response r = Inr status \<and> symbol \<in> set (symbols status))"
  shows "Api_stopStream \<notin> set (addSymbol r input_value) \<and>
         (\<forall>syms. Api_startStream syms \<notin> set (addSymbol r input_value)) \<and>
         filter changes_stream (addSymbol r input_value) = [] \<and>
         ClearInput \<notin> set (addSymbol r input_value) \<and>
         ((\<forall>e st. \<not> changes_stream e \<longrightarrow> serve e st = st) \<longrightarrow>
            fold serve (addSymbol r input_value) st = st)"
proof -
  from addSymbol_rejected[OF assms]
  have *: "\<forall>e \<in> set (addSymbol r input_value). \<not> changes_stream e \<and> e \<noteq> ClearInput"
    by auto
  then have "fold serve (addSymbol r input_value) st = st"
    if "\<forall>e st. \<not> changes_stream e \<longrightarrow> serve e st = st"
    using that fold_unchanged[of "addSymbol r input_value" serve st] by blast
  moreover from * have "filter changes_stream (addSymbol r input_value) = []"
    by (simp add: filter_empty_conv)
  ultimately show ?thesis using * by fastforce
qed

theorem addSymbol_input_checks_witness:
  "filter changes_stream (addSymbol
     \<lparr>getStreamStatus_response = Inr \<lparr>running = True, symbols = [''btcusdt'', ''ethusdt'']\<rparr>,
      stopStream_response = Inr (), startStream_response = Inr ()\<rparr>
     ''   '') = [] \<and>
   filter changes_stream (addSymbol
     \<lparr>getStreamStatus_response = Inr \<lparr>running = True, symbols = [''btcusdt'', ''ethusdt'']\<rparr>,
      stopStream_response = Inr (), startStream_response = Inr ()\<rparr>
     ''btc'') = [] \<and>
   filter changes_stream (addSymbol
     \<lparr>getStreamStatus_response = Inr \<lparr>running = True, symbols = [''btcusdt'', ''ethusdt'']\<rparr>,
      stopStream_response = Inr (), startStream_response = Inr ()\<rparr>
     ''BTCusdt '') = [] \<and>
   addSymbol
     \<lparr>getStreamStatus_response = Inr \<lparr>running = True, symbols = [''btcusdt'', ''ethusdt'']\<rparr>,
      stopStream_response = Inr (), startStream_response = Inr ()\<rparr>
     ''BTCusdt '' =
   [Api_getStreamStatus, ShowToast Symbol_already_being_tracked Warning] \<and>
   fold (\<lambda>e st. case e of
                  Api_stopStream \<Rightarrow> st\<lparr>running := False\<rparr>
                | Api_startStream syms \<Rightarrow> \<lparr>running = True, symbols = syms\<rparr>
                | _ \<Rightarrow> st)
     (addSymbol
       \<lparr>getStreamStatus_response = Inr \<lparr>running = True, symbols = [''btcusdt'', ''ethusdt'']\<rparr>,
        stopStream_response = Inr (), startStream_response = Inr ()\<rparr>
       ''BTCusdt '')
     \<lparr>running = True, symbols = [''btcusdt'', ''ethusdt'']\<rparr> =
   \<lparr>running = True, symbols = [''btcusdt'', ''ethusdt'']\<rparr>"
proof -
  let ?st = "\<lparr>running = True, symbols = [''btcusdt'', ''ethusdt'']\<rparr>"
  let ?r = "\<lparr>getStreamStatus_response = Inr ?st,
      stopStream_response = Inr (), startStream_response = Inr ()\<rparr>"
  let ?serve = "\<lambda>e st. case e of
                  Api_stopStream \<Rightarrow> st\<lparr>running := False\<rparr>
                | Api_startStream syms \<Rightarrow> \<lparr>running = True, symbols = syms\<rparr>
                | _ \<Rightarrow> st"
  have e1: "[] = toLowerCase (trim ''   '')"
    and e2: "''btc'' = toLowerCase (trim ''btc'')"
    and e3: "''btcusdt'' = toLowerCase (trim ''BTCusdt '')"
    by (simp_all add: toLowerCase_trim_examples)
  have c1: "([] :: string) = [] \<or> \<not> endsWith [] ''usdt'' \<or>
         (\<exists>status. getStreamStatus_response ?r = Inr status \<and> [] \<in> set (symbols status))"
    by simp
  have c2: "''btc'' = [] \<or> \<not> endsWith ''btc'' ''usdt'' \<or>
         (\<exists>status. getStreamStatus_response ?r = Inr status \<and> ''btc'' \<in> set (symbols status))"
    by (simp add: endsWith_examples)
  have c3: "''btcusdt'' = [] \<or> \<not> endsWith ''btcusdt'' ''usdt'' \<or>
         (\<exists>status. getStreamStatus_response ?r = Inr status \<and>
            ''btcusdt'' \<in> set (symbols status))"
    by simp
  have sv: "\<forall>e st. \<not> changes_stream e \<longrightarrow> ?serve e st = st"
  proof (intro allI impI)
    fix e :: effect and st :: stream_status
    assume "\<not> changes_stream e"
    then show "?serve e st = st" by (cases e) simp_all
  qed
  note a = addSymbol_input_checks[OF e1 c1, THEN conjunct2, THEN conjunct2, THEN conjunct1]
  note b = addSymbol_input_checks[OF e2 c2, THEN conjunct2, THEN conjunct2, THEN conjunct1]
  note k = addSymbol_input_checks[OF e3 c3, of ?serve ?st]
  note c = k[THEN conjunct2, THEN conjunct2, THEN conjunct1]
  note d = k[THEN conjunct2, THEN conjunct2, THEN conjunct2, THEN conjunct2, THEN mp, OF sv]
  have f: "addSymbol ?r ''BTCusdt '' =
      [Api_getStreamStatus, ShowToast Symbol_already_being_tracked Warning]"
    by (simp add: addSymbol_def Let_def toLowerCase_trim_examples endsWith_examples)
  from a b c d f show ?thesis by simp
qed

section \<open>Properties of the reconnect loop\<close>

declare reconnect_loop.simps [simp del] reconnect_final.simps [simp del]

lemma reconnect_loop_length: "length (reconnect_loop s) = nat (10 - reconnectAttempts s)"
proof (induction s rule: reconnect_loop.induct)
  case (1 s)
  show ?case
  proof (cases "reconnectAttempts s < 10")
    case True
    then have r: "reconnect s = Some (reconnectDelay s)" by (simp add: reconnect_def)
    from "1"[OF r] True show ?thesis
      by (subst reconnect_loop.simps) (simp add: r reconnect_timer_def)
  next
    case False
    then show ?thesis
      by (subst reconnect_loop.simps) (simp add: reconnect_def)
  qed
qed

lemma reconnect_final_stops: "reconnect (reconnect_final s) = None"
proof (induction s rule: reconnect_final.induct)
  case (1 s)
  show ?case
  proof (cases "reconnect s")
    case None
    then show ?thesis by (subst reconnect_final.simps) simp
  next
    case (Some delay)
    with "1" show ?thesis by (subst reconnect_final.simps) simp
  qed
qed

lemma reconnect_final_attempts:
  "reconnectAttempts s \<le> 10 \<Longrightarrow> reconnectAttempts (reconnect_final s) = 10"
proof (induction s rule: reconnect_final.induct)
  case (1 s)
  show ?case
  proof (cases "reconnectAttempts s < 10")
    case True
    then have r: "reconnect s = Some (reconnectDelay s)" by (simp add: reconnect_def)
    from "1.IH"[OF r] True show ?thesis
      by (subst reconnect_final.simps) (simp add: r reconnect_timer_def)
  next
    case False
    with "1.prems" show ?thesis
      by (subst reconnect_final.simps) (simp add: reconnect_def)
  qed
qed

lemma reconnect_loop_capped:
  "reconnectDelay s \<le> maxReconnectDelay s \<Longrightarrow>
   \<forall>delay \<in> set (reconnect_loop s). delay \<le> maxReconnectDelay s"
proof (induction s rule: reconnect_loop.induct)
  case (1 s)
  show ?case
  proof (cases "reconnectAttempts s < 10")
    case True
    then have r: "reconnect s = Some (reconnectDelay s)" by (simp add: reconnect_def)
    from "1.IH"[OF r] "1.prems" show ?thesis
      by (subst reconnect_loop.simps) (simp add: r reconnect_timer_def)
  next
    case False
    then show ?thesis
      by (subst reconnect_loop.simps) (simp add: reconnect_def)
  qed
qed

lemma reconnect_loop_onopen:
  "maxReconnectDelay s = 30000 \<Longrightarrow>
   reconnect_loop (onopen s) =
     [1000, 2000, 4000, 8000, 16000, 30000, 30000, 30000, 30000, 30000]"
  by (simp add: reconnect_loop.simps reconnect_def reconnect_timer_def onopen_def)

lemma reconnect_loop_new:
  "reconnect_loop WebSocketClient_new =
     [1000, 2000, 4000, 8000, 16000, 30000, 30000, 30000, 30000, 30000]"
  by (simp add: reconnect_loop.simps reconnect_def reconnect_timer_def WebSocketClient_new_def)

text \<open>
  C8: each reconnect attempt doubles the delay and caps it at the maximum, 30000 ms. From
  the client as constructed, and again after every successful connection, a run of failed
  attempts waits 1000, 2000, 4000, 8000, 16000 and then five times 30000 ms: ten attempts.
  The loop ends by itself, in a state in which \<open>reconnect\<close> sets no timer, after at most
  ten attempts from any state with a non-negative attempt count.
\<close>

theorem reconnect_backoff_bounded:
  "reconnectDelay (reconnect_timer s) = min (reconnectDelay s * 2) (maxReconnectDelay s) \<and>
   reconnectAttempts (reconnect_timer s) = reconnectAttempts s + 1 \<and>
   maxReconnectDelay (reconnect_timer s) = maxReconnectDelay s \<and>
   maxReconnectDelay WebSocketClient_new = 30000 \<and>
   reconnect_loop WebSocketClient_new =
     [1000, 2000, 4000, 8000, 16000, 30000, 30000, 30000, 30000, 30000] \<and>
   (maxReconnectDelay s = 30000 \<longrightarrow>
      reconnectDelay (reconnect_timer s) \<le> 30000 \<and>
      reconnect_loop (onopen s) =
        [1000, 2000, 4000, 8000, 16000, 30000, 30000, 30000, 30000, 30000]) \<and>
   (0 \<le> reconnectAttempts s \<longrightarrow> length (reconnect_loop s) \<le> 10) \<and>
   (reconnectAttempts s \<le> 10 \<longrightarrow> reconnectAttempts (reconnect_final s) = 10) \<and>
   reconnect (reconnect_final s) = None"
proof -
  have "length (reconnect_loop s) \<le> 10" if "0 \<le> reconnectAttempts s"
    using that by (simp add: reconnect_loop_length)
  moreover have "reconnectDelay (reconnect_timer s) \<le> 30000" if "maxReconnectDelay s = 30000"
    using that by (simp add: reconnect_timer_def)
  ultimately show ?thesis
    using reconnect_final_attempts[of s] reconnect_loop_onopen[of s]
    by (simp add: reconnect_loop_new reconnect_final_stops)
       (simp add: reconnect_timer_def WebSocketClient_new_def)
qed

theorem reconnect_backoff_bounded_witness:
  "maxReconnectDelay WebSocketClient_new = 30000 \<and>
   0 \<le> reconnectAttempts WebSocketClient_new \<and>
   reconnectAttempts WebSocketClient_new \<le> 10 \<and>
   reconnectDelay (reconnect_timer WebSocketClient_new) = 2000 \<and>
   reconnect_loop (onopen WebSocketClient_new) =
     [1000, 2000, 4000, 8000, 16000, 30000, 30000, 30000, 30000, 30000] \<and>
   length (reconnect_loop WebSocketClient_new) \<le> 10 \<and>
   reconnectAttempts (reconnect_final WebSocketClient_new) = 10 \<and>
   reconnect (reconnect_final WebSocketClient_new) = None"
  using reconnect_backoff_bounded[of WebSocketClient_new]
  by (simp add: WebSocketClient_new_def)

end
